theory Spec2Isabelle
  imports Complex_Main
begin

section \<open>parcels/nemo\_grid.py: the NEMOGrid class\<close>

text \<open>
  The class reads and writes NEMO-convention NetCDF files through the netCDF4 library,
  fits SciPy splines to the velocity fields and keeps a list of particles. The embedding
  follows the Python text method by method. What belongs to third-party libraries is
  either a parameter (the spline constructor and evaluator, the conversion of a number to
  a variable's storage type, the resolution of a file name by \<^verbatim>\<open>py.path.local\<close>) or a
  small model of the library calls the class makes (datasets, dimensions, variables and
  slice assignment of netCDF4).
\<close>

subsection \<open>Numbers, arrays and exceptions\<close>

text \<open>
  A floating-point number. The class never computes with the numbers it holds: it copies
  them, tests them for NaN and hands them to the spline library. So a number is NaN, an
  infinity or a finite real, with no rounding of its own; the rounding that happens when a
  number is stored into a variable of a narrower type is the parameter \<open>cast\<close> below.
\<close>

datatype fval = NaN | PosInf | NegInf | Fin real

datatype dtype = Float32 | Float64

text \<open>\<^verbatim>\<open>np.isnan\<close> on one number.\<close>

definition isnan :: "fval \<Rightarrow> bool" where
  "isnan v = (v = NaN)"

text \<open>One- and two-dimensional numpy arrays, as nested lists in row-major order.\<close>

datatype ndarray = A1 "fval list" | A2 "fval list list"

text \<open>
  The exceptions a call can end with. \<open>AttributeError\<close>, \<open>TypeError\<close> and \<open>IndexError\<close>
  are raised by Python itself on the grid's attributes; \<open>NetCDFError\<close> stands for any
  exception out of the netCDF4 library, \<open>SplineError\<close> for any out of the spline library.
\<close>

datatype error = AttributeError | TypeError | IndexError | NetCDFError | SplineError

text \<open>Sequencing of calls that may raise: the first exception ends the computation.\<close>

definition bnd :: "error + 'a \<Rightarrow> ('a \<Rightarrow> error + 'b) \<Rightarrow> error + 'b" where
  "bnd m f = (case m of Inl e \<Rightarrow> Inl e | Inr a \<Rightarrow> f a)"

text \<open>\<^verbatim>\<open>for i in range(n): body\<close>, the body updating a state and possibly raising.\<close>

fun for_range :: "nat list \<Rightarrow> (nat \<Rightarrow> 's \<Rightarrow> error + 's) \<Rightarrow> 's \<Rightarrow> error + 's" where
  "for_range [] body s = Inr s"
| "for_range (i # is) body s = bnd (body i s) (for_range is body)"

text \<open>
  The shape of an array; a nested list whose rows differ in length is no array.
  \<^verbatim>\<open>np.transpose\<close> of a two-dimensional array swaps its axes.
\<close>

definition rect :: "'a list list \<Rightarrow> nat \<Rightarrow> bool" where
  "rect xss n = (\<forall>r \<in> set xss. length r = n)"

fun shape :: "ndarray \<Rightarrow> nat list option" where
  "shape (A1 xs) = Some [length xs]"
| "shape (A2 []) = Some [0, 0]"
| "shape (A2 (r # rs)) = (if rect rs (length r) then Some [Suc (length rs), length r] else None)"

definition np_transpose :: "fval list list \<Rightarrow> fval list list" where
  "np_transpose xss =
     (case xss of [] \<Rightarrow> []
      | r # _ \<Rightarrow> map (\<lambda>j. map (\<lambda>row. row ! j) xss) [0..<length r])"

fun nd_get :: "ndarray \<Rightarrow> nat list \<Rightarrow> fval option" where
  "nd_get (A1 xs) [i] = (if i < length xs then Some (xs ! i) else None)"
| "nd_get (A2 xss) [j, i] =
     (if j < length xss \<and> i < length (xss ! j) then Some (xss ! j ! i) else None)"
| "nd_get _ _ = None"

subsection \<open>The netCDF4 calls the class makes\<close>

text \<open>
  A dimension has a current length and may be unlimited; netCDF4 creates an unlimited
  dimension for the size \<^verbatim>\<open>None\<close> and also for the size 0. A variable has a storage type,
  the names of its dimensions, attributes, and one number per index tuple; a cell never
  written holds the library's default fill value, \<open>15 * 2 ^ 119\<close> for both float types
  (about \<open>9.97e36\<close>).
\<close>

record ncdim =
  dim_len :: nat
  dim_unlimited :: bool

record ncvar =
  var_dtype :: dtype
  var_dims :: "string list"
  var_attrs :: "string \<rightharpoonup> fval"
  var_cells :: "nat list \<Rightarrow> fval"

record dataset =
  ds_dims :: "string \<rightharpoonup> ncdim"
  ds_vars :: "string \<rightharpoonup> ncvar"

definition NC_FILL :: fval where
  "NC_FILL = Fin (15 * 2 ^ 119)"

definition empty_dataset :: dataset where
  "empty_dataset = \<lparr>ds_dims = Map.empty, ds_vars = Map.empty\<rparr>"

text \<open>\<^verbatim>\<open>dset.createDimension(name, size)\<close>.\<close>

definition createDimension :: "dataset \<Rightarrow> string \<Rightarrow> nat option \<Rightarrow> error + dataset" where
  "createDimension d name size_opt =
     (if name \<in> dom (ds_dims d) then Inl NetCDFError
      else let n = (case size_opt of None \<Rightarrow> 0 | Some k \<Rightarrow> k)
           in Inr (d\<lparr>ds_dims := (ds_dims d)(name \<mapsto> \<lparr>dim_len = n, dim_unlimited = (n = 0)\<rparr>)\<rparr>))"

text \<open>\<^verbatim>\<open>dset.createVariable(name, datatype, dimensions)\<close>.\<close>

definition createVariable :: "dataset \<Rightarrow> string \<Rightarrow> dtype \<Rightarrow> string list \<Rightarrow> error + dataset" where
  "createVariable d name dt dnames =
     (if name \<in> dom (ds_vars d) \<or> \<not> set dnames \<subseteq> dom (ds_dims d) then Inl NetCDFError
      else Inr (d\<lparr>ds_vars := (ds_vars d)(name \<mapsto>
             \<lparr>var_dtype = dt, var_dims = dnames, var_attrs = Map.empty,
              var_cells = (\<lambda>_. NC_FILL)\<rparr>)\<rparr>))"

text \<open>
  An index expression has one selector per dimension: a number (\<open>At\<close>) or the full slice
  \<^verbatim>\<open>:\<close> (\<open>Every\<close>). \<open>locate\<close> tells whether an index tuple lies in the selected region
  and where in the assigned array; \<open>place\<close> is the index tuple of a position of the region.
\<close>

datatype sel = At nat | Every

fun locate :: "sel list \<Rightarrow> nat list \<Rightarrow> nat list option" where
  "locate [] [] = Some []"
| "locate (At i # ss) (j # js) = (if i = j then locate ss js else None)"
| "locate (Every # ss) (j # js) = map_option ((#) j) (locate ss js)"
| "locate _ _ = None"

fun place :: "sel list \<Rightarrow> nat list \<Rightarrow> nat list" where
  "place [] pos = []"
| "place (At i # ss) pos = i # place ss pos"
| "place (Every # ss) [] = []"
| "place (Every # ss) (p # pos) = p # place ss pos"

text \<open>
  The region an assignment \<^verbatim>\<open>var[sels] = data\<close> selects has one axis per full slice. Its
  extent along a fixed dimension is the dimension's length. Along an unlimited dimension
  it is the extent of the assigned array on that axis, when the array has one axis per
  full slice, and the dimension's current length otherwise. (In \<open>write\<close> the time
  dimension is unlimited, and so is the depth, x or y dimension of a grid whose depth,
  longitude or latitude array is empty.)
\<close>

definition slice_extents :: "sel list \<Rightarrow> nat list \<Rightarrow> nat option list" where
  "slice_extents sels dsh =
     (if length dsh = length (filter (\<lambda>s. s = Every) sels) then map Some dsh
      else map (\<lambda>_. None) (filter (\<lambda>s. s = Every) sels))"

fun slot_shape ::
  "(string \<rightharpoonup> ncdim) \<Rightarrow> string list \<Rightarrow> sel list \<Rightarrow> nat option list \<Rightarrow> nat list option" where
  "slot_shape dm [] [] [] = Some []"
| "slot_shape dm (n # ns) (At i # ss) es =
     (case dm n of None \<Rightarrow> None | Some c \<Rightarrow> slot_shape dm ns ss es)"
| "slot_shape dm (n # ns) (Every # ss) (e # es) =
     (case dm n of None \<Rightarrow> None
      | Some c \<Rightarrow>
          map_option ((#) (if dim_unlimited c then (case e of None \<Rightarrow> dim_len c | Some k \<Rightarrow> k)
                           else dim_len c))
            (slot_shape dm ns ss es))"
| "slot_shape dm _ _ _ = None"

text \<open>
  The assigned array need not have the shape of the region. netCDF4 takes an array with
  as many numbers as the region in row-major order, whatever its shape (it reshapes);
  an array of another size it broadcasts as numpy does, the axes aligned at the right and
  an axis of length 1 repeated; an array that fits in neither way raises. \<open>fetch\<close> is
  the number that lands at a position of the region.
\<close>

definition numel :: "nat list \<Rightarrow> nat" where
  "numel sh = prod_list sh"

fun offset :: "nat list \<Rightarrow> nat list \<Rightarrow> nat" where
  "offset (n # ns) (p # ps) = p * numel ns + offset ns ps"
| "offset _ _ = 0"

definition in_shape :: "nat list \<Rightarrow> nat list \<Rightarrow> bool" where
  "in_shape sh pos = list_all2 (<) pos sh"

fun nd_flat :: "ndarray \<Rightarrow> fval list" where
  "nd_flat (A1 xs) = xs"
| "nd_flat (A2 xss) = concat xss"

definition broadcastable :: "nat list \<Rightarrow> nat list \<Rightarrow> bool" where
  "broadcastable dsh sh =
     (length dsh \<le> length sh \<and>
      list_all2 (\<lambda>d s. d = s \<or> d = 1) dsh (drop (length sh - length dsh) sh))"

definition broadcast_pos :: "nat list \<Rightarrow> nat list \<Rightarrow> nat list \<Rightarrow> nat list" where
  "broadcast_pos dsh sh pos =
     map2 (\<lambda>d p. if d = 1 then 0 else p) dsh (drop (length sh - length dsh) pos)"

definition conforms :: "nat list \<Rightarrow> nat list \<Rightarrow> bool" where
  "conforms dsh sh = (numel dsh = numel sh \<or> broadcastable dsh sh)"

definition fetch :: "ndarray \<Rightarrow> nat list \<Rightarrow> nat list \<Rightarrow> nat list \<Rightarrow> fval option" where
  "fetch data dsh sh pos =
     (if \<not> in_shape sh pos then None
      else if numel dsh = numel sh then Some (nd_flat data ! offset sh pos)
      else nd_get data (broadcast_pos dsh sh pos))"

text \<open>
  What an assignment does to the dimensions. A number indexes a fixed dimension within
  its length and grows an unlimited one as far as needed. A full slice leaves a fixed
  dimension as it is, and an unlimited dimension grows to the extent of the region.
\<close>

definition index_dim :: "ncdim \<Rightarrow> nat \<Rightarrow> ncdim option" where
  "index_dim c i =
     (if i < dim_len c then Some c
      else if dim_unlimited c then Some (c\<lparr>dim_len := Suc i\<rparr>) else None)"

definition slice_dim :: "ncdim \<Rightarrow> nat \<Rightarrow> ncdim option" where
  "slice_dim c n =
     (if dim_unlimited c then Some (c\<lparr>dim_len := max (dim_len c) n\<rparr>)
      else if n = dim_len c then Some c else None)"

fun grow_dims ::
  "(string \<rightharpoonup> ncdim) \<Rightarrow> string list \<Rightarrow> sel list \<Rightarrow> nat list \<Rightarrow> (string \<rightharpoonup> ncdim) option" where
  "grow_dims dm [] [] [] = Some dm"
| "grow_dims dm (n # ns) (At i # ss) sh =
     (case dm n of None \<Rightarrow> None
      | Some c \<Rightarrow> (case index_dim c i of None \<Rightarrow> None
                   | Some c' \<Rightarrow> grow_dims (dm(n \<mapsto> c')) ns ss sh))"
| "grow_dims dm (n # ns) (Every # ss) (k # sh) =
     (case dm n of None \<Rightarrow> None
      | Some c \<Rightarrow> (case slice_dim c k of None \<Rightarrow> None
                   | Some c' \<Rightarrow> grow_dims (dm(n \<mapsto> c')) ns ss sh))"
| "grow_dims dm _ _ _ = None"

text \<open>
  The cells after an assignment: a cell of the selected region takes the converted number
  that lands at its position, every other cell keeps its number.
\<close>

definition put_cells ::
  "(fval \<Rightarrow> fval) \<Rightarrow> sel list \<Rightarrow> (nat list \<Rightarrow> fval option) \<Rightarrow> (nat list \<Rightarrow> fval) \<Rightarrow>
   nat list \<Rightarrow> fval" where
  "put_cells f sels get cells ix =
     (case locate sels ix of None \<Rightarrow> cells ix
      | Some pos \<Rightarrow> (case get pos of None \<Rightarrow> cells ix | Some a \<Rightarrow> f a))"

text \<open>\<^verbatim>\<open>dset[name][sels] = data\<close>: every number is converted to the variable's type.\<close>

definition var_setitem ::
  "(dtype \<Rightarrow> fval \<Rightarrow> fval) \<Rightarrow> dataset \<Rightarrow> string \<Rightarrow> sel list \<Rightarrow> ndarray \<Rightarrow> error + dataset" where
  "var_setitem cast d name sels data =
     (case ds_vars d name of None \<Rightarrow> Inl IndexError
      | Some v \<Rightarrow>
        (case shape data of None \<Rightarrow> Inl NetCDFError
         | Some dsh \<Rightarrow>
           (case slot_shape (ds_dims d) (var_dims v) sels (slice_extents sels dsh) of
              None \<Rightarrow> Inl IndexError
            | Some sh \<Rightarrow>
              if \<not> conforms dsh sh then Inl IndexError
              else
                (case grow_dims (ds_dims d) (var_dims v) sels sh of None \<Rightarrow> Inl IndexError
                 | Some dm \<Rightarrow>
                   Inr (d\<lparr>ds_dims := dm,
                          ds_vars := (ds_vars d)(name \<mapsto>
                            v\<lparr>var_cells :=
                                put_cells (cast (var_dtype v)) sels (fetch data dsh sh)
                                  (var_cells v)\<rparr>)\<rparr>)))))"

text \<open>\<^verbatim>\<open>dset[name].attr = value\<close>: an attribute keeps the number as it is given.\<close>

definition var_setattr :: "dataset \<Rightarrow> string \<Rightarrow> string \<Rightarrow> fval \<Rightarrow> error + dataset" where
  "var_setattr d name attr a =
     (case ds_vars d name of None \<Rightarrow> Inl IndexError
      | Some v \<Rightarrow> Inr (d\<lparr>ds_vars := (ds_vars d)(name \<mapsto> v\<lparr>var_attrs := (var_attrs v)(attr \<mapsto> a)\<rparr>)\<rparr>))"

text \<open>
  Reading \<^verbatim>\<open>dset[name][sels]\<close>. Every number must lie within its dimension; the result
  has one axis per full slice. The class reads one- and two-dimensional results only.
\<close>

fun read_extents ::
  "(string \<rightharpoonup> ncdim) \<Rightarrow> string list \<Rightarrow> sel list \<Rightarrow> nat list option" where
  "read_extents dm [] [] = Some []"
| "read_extents dm (n # ns) (At i # ss) =
     (case dm n of None \<Rightarrow> None
      | Some c \<Rightarrow> if i < dim_len c then read_extents dm ns ss else None)"
| "read_extents dm (n # ns) (Every # ss) =
     (case dm n of None \<Rightarrow> None
      | Some c \<Rightarrow> map_option ((#) (dim_len c)) (read_extents dm ns ss))"
| "read_extents dm _ _ = None"

definition var_getitem :: "dataset \<Rightarrow> string \<Rightarrow> sel list \<Rightarrow> error + ndarray" where
  "var_getitem d name sels =
     (case ds_vars d name of None \<Rightarrow> Inl IndexError
      | Some v \<Rightarrow>
        (case read_extents (ds_dims d) (var_dims v) sels of None \<Rightarrow> Inl IndexError
         | Some [n] \<Rightarrow> Inr (A1 (map (\<lambda>a. var_cells v (place sels [a])) [0..<n]))
         | Some [m, n] \<Rightarrow>
             Inr (A2 (map (\<lambda>a. map (\<lambda>b. var_cells v (place sels [a, b])) [0..<n]) [0..<m]))
         | Some _ \<Rightarrow> Inl NetCDFError))"

text \<open>
  netCDF4 hands the result of a read out as a masked array. Its numbers are those of
  \<open>var_getitem\<close>; in addition an entry is marked as masked when its number is the fill
  value, or lies below the variable's attribute \<^verbatim>\<open>valid_min\<close> or above its attribute
  \<^verbatim>\<open>valid_max\<close>, the attribute converted to the variable's type for the comparison.
  The mark changes no number and the class never looks at it, so what the class stores
  is given by \<open>var_getitem\<close>. The spline library is handed the array with its marks;
  the parameter \<open>rbs\<close> below stands for the library on the numbers, which is all it
  sees when nothing is marked. \<open>var_masked\<close> tells whether a read has a masked entry;
  \<open>fless\<close> is the comparison \<^verbatim>\<open><\<close> of two numbers, false when one is NaN.
\<close>

fun fless :: "fval \<Rightarrow> fval \<Rightarrow> bool" where
  "fless (Fin a) (Fin b) = (a < b)"
| "fless NegInf (Fin b) = True"
| "fless NegInf PosInf = True"
| "fless (Fin a) PosInf = True"
| "fless _ _ = False"

definition masked_value :: "(fval \<Rightarrow> fval) \<Rightarrow> (string \<rightharpoonup> fval) \<Rightarrow> fval \<Rightarrow> bool" where
  "masked_value f attrs a =
     (a = NC_FILL
      \<or> (case attrs ''valid_min'' of None \<Rightarrow> False | Some lo \<Rightarrow> fless a (f lo))
      \<or> (case attrs ''valid_max'' of None \<Rightarrow> False | Some hi \<Rightarrow> fless (f hi) a))"

definition var_masked ::
  "(dtype \<Rightarrow> fval \<Rightarrow> fval) \<Rightarrow> dataset \<Rightarrow> string \<Rightarrow> sel list \<Rightarrow> bool" where
  "var_masked cast d name sels =
     (case ds_vars d name of None \<Rightarrow> False
      | Some v \<Rightarrow>
        (case var_getitem d name sels of Inl e \<Rightarrow> False
         | Inr (A1 xs) \<Rightarrow> list_ex (masked_value (cast (var_dtype v)) (var_attrs v)) xs
         | Inr (A2 xss) \<Rightarrow>
             list_ex (list_ex (masked_value (cast (var_dtype v)) (var_attrs v))) xss))"

text \<open>
  The files on disk, by path, and what has been printed. \<^verbatim>\<open>Dataset(path, 'r')\<close> opens an
  existing file; \<^verbatim>\<open>Dataset(path, 'w')\<close> starts an empty dataset, which \<^verbatim>\<open>close()\<close>
  leaves at the path, replacing what was there.
\<close>

record world =
  files :: "string \<rightharpoonup> dataset"
  stdout :: "string list"

definition Dataset_r :: "world \<Rightarrow> string \<Rightarrow> error + dataset" where
  "Dataset_r w p = (case files w p of None \<Rightarrow> Inl NetCDFError | Some d \<Rightarrow> Inr d)"

definition Dataset_close :: "world \<Rightarrow> string \<Rightarrow> dataset \<Rightarrow> world" where
  "Dataset_close w p d = w\<lparr>files := (files w)(p \<mapsto> d)\<rparr>"

subsection \<open>The grid object\<close>

text \<open>
  A coordinate attribute of a grid holds a one-dimensional numpy array (a grid filled in
  by hand, which \<open>write\<close> expects) or, after \<open>__init__\<close> has read a file, the netCDF4
  variable itself: the open dataset and the variable's name. Attributes that are \<^verbatim>\<open>None\<close>
  or absent are \<open>None\<close>. The class attributes \<^verbatim>\<open>x = 0\<close> and \<^verbatim>\<open>y = 0\<close> are never read
  or assigned by the class and are left out. \<open>own_particles\<close> is the instance-level
  \<^verbatim>\<open>_particles\<close>, if one was assigned: a reference to a list object.
\<close>

datatype coord = Array1 "fval list" | Handle dataset string

record 'sp NEMOGrid =
  depth :: "fval list option"
  time_counter :: "fval list option"
  lon_u :: "coord option"
  lat_u :: "coord option"
  lon_v :: "coord option"
  lat_v :: "coord option"
  flow_U :: "fval list list option"
  flow_V :: "fval list list option"
  dset_u :: "dataset option"
  dset_v :: "dataset option"
  interp_u :: "'sp option"
  interp_v :: "'sp option"
  own_particles :: "nat option"

text \<open>A new instance: every attribute is the class's default.\<close>

definition new_grid :: "'sp NEMOGrid" where
  "new_grid = \<lparr>depth = None, time_counter = None, lon_u = None, lat_u = None,
               lon_v = None, lat_v = None, flow_U = None, flow_V = None,
               dset_u = None, dset_v = None, interp_u = None, interp_v = None,
               own_particles = None\<rparr>"

subsection \<open>\_\_init\_\_\<close>

text \<open>
  \<^verbatim>\<open>self.U[np.isnan(self.U)] = 0.\<close>: the mask of the NaN entries, then the assignment of
  \<open>0.0\<close> at the masked positions.
\<close>

definition np_isnan :: "fval list list \<Rightarrow> bool list list" where
  "np_isnan xss = map (map isnan) xss"

definition mask_assign :: "fval list list \<Rightarrow> bool list list \<Rightarrow> fval \<Rightarrow> fval list list" where
  "mask_assign xss mss c = map2 (map2 (\<lambda>a m. if m then c else a)) xss mss"

text \<open>\<^verbatim>\<open>dset[name]\<close>: the variable of an open dataset.\<close>

definition Dataset_getitem :: "dataset \<Rightarrow> string \<Rightarrow> error + coord" where
  "Dataset_getitem d name =
     (case ds_vars d name of None \<Rightarrow> Inl IndexError | Some _ \<Rightarrow> Inr (Handle d name))"

text \<open>Indexing a coordinate attribute that is a file variable, as \<open>__init__\<close> does.\<close>

fun coord_getitem :: "coord \<Rightarrow> sel list \<Rightarrow> error + ndarray" where
  "coord_getitem (Handle d name) sels = var_getitem d name sels"
| "coord_getitem (Array1 xs) sels = Inl IndexError"

definition as_A1 :: "ndarray \<Rightarrow> error + fval list" where
  "as_A1 a = (case a of A1 xs \<Rightarrow> Inr xs | A2 _ \<Rightarrow> Inl NetCDFError)"

definition as_A2 :: "ndarray \<Rightarrow> error + fval list list" where
  "as_A2 a = (case a of A2 xss \<Rightarrow> Inr xss | A1 _ \<Rightarrow> Inl NetCDFError)"

text \<open>
  \<^verbatim>\<open>RectBivariateSpline(x, y, z, kx=degree, ky=degree)\<close> is the parameter \<open>rbs\<close>; it
  returns \<open>None\<close> where the library raises.
\<close>

definition fit ::
  "(fval list \<Rightarrow> fval list \<Rightarrow> fval list list \<Rightarrow> int \<Rightarrow> int \<Rightarrow> 'sp option) \<Rightarrow>
   fval list \<Rightarrow> fval list \<Rightarrow> fval list list \<Rightarrow> int \<Rightarrow> int \<Rightarrow> error + 'sp" where
  "fit rbs xs ys zss kx ky =
     (case rbs xs ys zss kx ky of None \<Rightarrow> Inl SplineError | Some s \<Rightarrow> Inr s)"

text \<open>
  \<^verbatim>\<open>NEMOGrid(filename=None, degree=3)\<close>. An absent or empty file name is false in
  Python and leaves the new instance as it is.
\<close>

definition NEMOGrid_init ::
  "(fval list \<Rightarrow> fval list \<Rightarrow> fval list list \<Rightarrow> int \<Rightarrow> int \<Rightarrow> 'sp option) \<Rightarrow>
   world \<Rightarrow> string option \<Rightarrow> int option \<Rightarrow> error + 'sp NEMOGrid" where
  "NEMOGrid_init rbs w filename_opt degree_opt =
     (let degree = (case degree_opt of None \<Rightarrow> 3 | Some k \<Rightarrow> k);
          self = new_grid
      in case filename_opt of None \<Rightarrow> Inr self
         | Some filename \<Rightarrow>
           if filename = [] then Inr self
           else
             bnd (Dataset_r w (filename @ ''_U.nc'')) (\<lambda>du.
             bnd (Dataset_r w (filename @ ''_V.nc'')) (\<lambda>dv.
             bnd (Dataset_getitem du ''nav_lon'') (\<lambda>lonu.
             bnd (Dataset_getitem du ''nav_lat'') (\<lambda>latu.
             bnd (Dataset_getitem dv ''nav_lon'') (\<lambda>lonv.
             bnd (Dataset_getitem dv ''nav_lat'') (\<lambda>latv.
             bnd (bnd (var_getitem du ''vozocrtx'' [At 0, At 0, Every, Every]) as_A2) (\<lambda>U0.
             bnd (bnd (var_getitem dv ''vomecrty'' [At 0, At 0, Every, Every]) as_A2) (\<lambda>V0.
             let U1 = mask_assign U0 (np_isnan U0) (Fin 0);
                 V1 = mask_assign V0 (np_isnan V0) (Fin 0)
             in
             bnd (bnd (coord_getitem latu [Every, At 0]) as_A1) (\<lambda>latu0.
             bnd (bnd (coord_getitem lonu [At 0, Every]) as_A1) (\<lambda>lonu0.
             bnd (fit rbs latu0 lonu0 U1 degree degree) (\<lambda>su.
             bnd (bnd (coord_getitem latv [Every, At 0]) as_A1) (\<lambda>latv0.
             bnd (bnd (coord_getitem lonv [At 0, Every]) as_A1) (\<lambda>lonv0.
             bnd (fit rbs latv0 lonv0 V1 degree degree) (\<lambda>sv.
             Inr (self\<lparr>dset_u := Some du, dset_v := Some dv,
                       lon_u := Some lonu, lat_u := Some latu,
                       lon_v := Some lonv, lat_v := Some latv,
                       flow_U := Some U1, flow_V := Some V1,
                       interp_u := Some su, interp_v := Some sv\<rparr>))))))))))))))))"

text \<open>
  Whether one of the six reads of \<open>__init__\<close> has a masked entry, the two datasets being
  those of the U and the V file.
\<close>

definition reads_masked :: "(dtype \<Rightarrow> fval \<Rightarrow> fval) \<Rightarrow> dataset \<Rightarrow> dataset \<Rightarrow> bool" where
  "reads_masked cast du dv =
     (var_masked cast du ''vozocrtx'' [At 0, At 0, Every, Every]
      \<or> var_masked cast dv ''vomecrty'' [At 0, At 0, Every, Every]
      \<or> var_masked cast du ''nav_lat'' [Every, At 0]
      \<or> var_masked cast du ''nav_lon'' [At 0, Every]
      \<or> var_masked cast dv ''nav_lat'' [Every, At 0]
      \<or> var_masked cast dv ''nav_lon'' [At 0, Every])"

subsection \<open>eval\<close>

text \<open>
  \<^verbatim>\<open>interp.ev(y, x)\<close> is the parameter \<open>ev\<close>, which may raise. A grid built without a
  file name has no attribute \<^verbatim>\<open>interp_u\<close>, and the lookup raises \<open>AttributeError\<close>.
\<close>

definition getattr_interp :: "'sp option \<Rightarrow> error + 'sp" where
  "getattr_interp a = (case a of None \<Rightarrow> Inl AttributeError | Some s \<Rightarrow> Inr s)"

definition NEMOGrid_eval ::
  "('sp \<Rightarrow> 'c \<Rightarrow> 'c \<Rightarrow> error + 'r) \<Rightarrow> 'sp NEMOGrid \<Rightarrow> 'c \<Rightarrow> 'c \<Rightarrow> error + ('r \<times> 'r)" where
  "NEMOGrid_eval ev self x y =
     bnd (bnd (getattr_interp (interp_u self)) (\<lambda>s. ev s y x)) (\<lambda>u.
     bnd (bnd (getattr_interp (interp_v self)) (\<lambda>s. ev s y x)) (\<lambda>v.
     Inr (u, v)))"

subsection \<open>add\_particle\<close>

text \<open>
  \<^verbatim>\<open>_particles = []\<close> in the class body creates one list object when the class is
  defined and binds the class attribute to it. The heap holds the list objects and the
  grid instances by reference, and the reference the class attribute is bound to.
  \<^verbatim>\<open>self._particles\<close> is looked up in the instance first and in the class second.
\<close>

record ('sp, 'p) pyheap =
  class_particles :: nat
  list_objs :: "nat \<Rightarrow> 'p list"
  instances :: "nat \<Rightarrow> 'sp NEMOGrid"

definition getattr_particles :: "('sp, 'p) pyheap \<Rightarrow> nat \<Rightarrow> nat" where
  "getattr_particles h self =
     (case own_particles (instances h self) of Some r \<Rightarrow> r | None \<Rightarrow> class_particles h)"

text \<open>\<^verbatim>\<open>lst.append(p)\<close> on the list object at a reference.\<close>

definition list_append :: "('sp, 'p) pyheap \<Rightarrow> nat \<Rightarrow> 'p \<Rightarrow> ('sp, 'p) pyheap" where
  "list_append h r p = h\<lparr>list_objs := (list_objs h)(r := list_objs h r @ [p])\<rparr>"

definition add_particle :: "('sp, 'p) pyheap \<Rightarrow> nat \<Rightarrow> 'p \<Rightarrow> ('sp, 'p) pyheap" where
  "add_particle h self p = list_append h (getattr_particles h self) p"

text \<open>The list a grid sees as \<^verbatim>\<open>g._particles\<close>.\<close>

definition particles_of :: "('sp, 'p) pyheap \<Rightarrow> nat \<Rightarrow> 'p list" where
  "particles_of h g = list_objs h (getattr_particles h g)"

subsection \<open>write\<close>

text \<open>
  How \<open>write\<close> uses a coordinate attribute: its length, the attribute as the assigned
  value, its first and its last element. A file variable is converted to the array of its
  numbers when it is assigned. The first or last element of a variable of more than one
  dimension is a row; that happens only on calls that raise later, and is modelled as
  raising there.
\<close>

definition var_len :: "dataset \<Rightarrow> string \<Rightarrow> error + nat" where
  "var_len d name =
     (case ds_vars d name of None \<Rightarrow> Inl IndexError
      | Some v \<Rightarrow> (case var_dims v of [] \<Rightarrow> Inl TypeError
                   | n # _ \<Rightarrow> (case ds_dims d n of None \<Rightarrow> Inl NetCDFError
                                | Some c \<Rightarrow> Inr (dim_len c))))"

fun coord_len :: "coord option \<Rightarrow> error + nat" where
  "coord_len None = Inl TypeError"
| "coord_len (Some (Array1 xs)) = Inr (length xs)"
| "coord_len (Some (Handle d name)) = var_len d name"

fun coord_array :: "coord option \<Rightarrow> error + ndarray" where
  "coord_array None = Inl NetCDFError"
| "coord_array (Some (Array1 xs)) = Inr (A1 xs)"
| "coord_array (Some (Handle d name)) =
     (case ds_vars d name of None \<Rightarrow> Inl IndexError
      | Some v \<Rightarrow> var_getitem d name (map (\<lambda>_. Every) (var_dims v)))"

fun coord_first :: "coord option \<Rightarrow> error + fval" where
  "coord_first None = Inl TypeError"
| "coord_first (Some (Array1 xs)) = (if xs = [] then Inl IndexError else Inr (xs ! 0))"
| "coord_first (Some (Handle d name)) =
     bnd (bnd (var_getitem d name [Every]) as_A1) (\<lambda>xs.
       if xs = [] then Inl IndexError else Inr (xs ! 0))"

fun coord_last :: "coord option \<Rightarrow> error + fval" where
  "coord_last None = Inl TypeError"
| "coord_last (Some (Array1 xs)) = (if xs = [] then Inl IndexError else Inr (last xs))"
| "coord_last (Some (Handle d name)) =
     bnd (bnd (var_getitem d name [Every]) as_A1) (\<lambda>xs.
       if xs = [] then Inl IndexError else Inr (last xs))"

text \<open>
  \<^verbatim>\<open>self.depth.size\<close> raises on \<^verbatim>\<open>None\<close>. \<open>array1\<close> is \<^verbatim>\<open>self.depth\<close> or
  \<^verbatim>\<open>self.time_counter\<close> as an assigned value, \<open>transposed\<close> is \<^verbatim>\<open>np.transpose(self.U)\<close>.
  An attribute that is \<^verbatim>\<open>None\<close> is assigned as the single number NaN that numpy makes
  of it. A single number fills the region it is assigned to, an empty unlimited dimension
  of the region getting the length 1; the arrays \<open>[NaN]\<close> and \<open>[[NaN]]\<close> of one entry
  stand for it, which are assigned with the same result.
\<close>

definition np_size :: "fval list option \<Rightarrow> error + nat" where
  "np_size a = (case a of None \<Rightarrow> Inl AttributeError | Some xs \<Rightarrow> Inr (length xs))"

definition array1 :: "fval list option \<Rightarrow> error + ndarray" where
  "array1 a = (case a of None \<Rightarrow> Inr (A1 [NaN]) | Some xs \<Rightarrow> Inr (A1 xs))"

definition transposed :: "fval list list option \<Rightarrow> error + ndarray" where
  "transposed a =
     (case a of None \<Rightarrow> Inr (A2 [[NaN]])
      | Some xss \<Rightarrow> if shape (A2 xss) = None then Inl NetCDFError
                    else Inr (A2 (np_transpose xss)))"

text \<open>
  The first half of \<open>write\<close>, from \<^verbatim>\<open>Dataset(..., 'w')\<close> to the dataset that is closed:
  the U file.
\<close>

definition write_u :: "(dtype \<Rightarrow> fval \<Rightarrow> fval) \<Rightarrow> 'sp NEMOGrid \<Rightarrow> error + dataset" where
  "write_u cast self =
     bnd (coord_len (lon_u self)) (\<lambda>nx.
     bnd (createDimension empty_dataset ''x'' (Some nx)) (\<lambda>d.
     bnd (coord_len (lat_u self)) (\<lambda>ny.
     bnd (createDimension d ''y'' (Some ny)) (\<lambda>d.
     bnd (np_size (depth self)) (\<lambda>nd.
     bnd (createDimension d ''depthu'' (Some nd)) (\<lambda>d.
     bnd (createDimension d ''time_counter'' None) (\<lambda>d.
     bnd (createVariable d ''nav_lon'' Float32 [''y'', ''x'']) (\<lambda>d.
     bnd (createVariable d ''nav_lat'' Float32 [''y'', ''x'']) (\<lambda>d.
     bnd (createVariable d ''depthu'' Float32 [''depthu'']) (\<lambda>d.
     bnd (createVariable d ''time_counter'' Float64 [''time_counter'']) (\<lambda>d.
     bnd (createVariable d ''vozocrtx'' Float32 [''time_counter'', ''depthu'', ''y'', ''x'']) (\<lambda>d.
     bnd (coord_len (lat_u self)) (\<lambda>ny.
     bnd (for_range [0..<ny] (\<lambda>y d.
            bnd (coord_array (lon_u self)) (var_setitem cast d ''nav_lon'' [At y, Every])) d) (\<lambda>d.
     bnd (coord_first (lon_u self)) (\<lambda>a.
     bnd (var_setattr d ''nav_lon'' ''valid_min'' a) (\<lambda>d.
     bnd (coord_last (lon_u self)) (\<lambda>a.
     bnd (var_setattr d ''nav_lon'' ''valid_max'' a) (\<lambda>d.
     bnd (coord_len (lon_u self)) (\<lambda>nx.
     bnd (for_range [0..<nx] (\<lambda>x d.
            bnd (coord_array (lat_u self)) (var_setitem cast d ''nav_lat'' [Every, At x])) d) (\<lambda>d.
     bnd (coord_first (lat_u self)) (\<lambda>a.
     bnd (var_setattr d ''nav_lat'' ''valid_min'' a) (\<lambda>d.
     bnd (coord_last (lat_u self)) (\<lambda>a.
     bnd (var_setattr d ''nav_lat'' ''valid_max'' a) (\<lambda>d.
     bnd (array1 (depth self)) (\<lambda>a.
     bnd (var_setitem cast d ''depthu'' [Every] a) (\<lambda>d.
     bnd (array1 (time_counter self)) (\<lambda>a.
     bnd (var_setitem cast d ''time_counter'' [Every] a) (\<lambda>d.
     bnd (transposed (flow_U self)) (\<lambda>a.
     bnd (var_setitem cast d ''vozocrtx'' [At 0, At 0, Every, Every] a) (\<lambda>d.
     Inr d))))))))))))))))))))))))))))))"

text \<open>
  The second half: the V file. The values of \<open>nav_lon\<close> and \<open>nav_lat\<close> come from
  \<open>lon_v\<close> and \<open>lat_v\<close>, their \<open>valid_min\<close> and \<open>valid_max\<close> from \<open>lon_u\<close> and
  \<open>lat_u\<close>, as in the source.
\<close>

definition write_v :: "(dtype \<Rightarrow> fval \<Rightarrow> fval) \<Rightarrow> 'sp NEMOGrid \<Rightarrow> error + dataset" where
  "write_v cast self =
     bnd (coord_len (lon_v self)) (\<lambda>nx.
     bnd (createDimension empty_dataset ''x'' (Some nx)) (\<lambda>d.
     bnd (coord_len (lat_v self)) (\<lambda>ny.
     bnd (createDimension d ''y'' (Some ny)) (\<lambda>d.
     bnd (np_size (depth self)) (\<lambda>nd.
     bnd (createDimension d ''depthv'' (Some nd)) (\<lambda>d.
     bnd (createDimension d ''time_counter'' None) (\<lambda>d.
     bnd (createVariable d ''nav_lon'' Float32 [''y'', ''x'']) (\<lambda>d.
     bnd (createVariable d ''nav_lat'' Float32 [''y'', ''x'']) (\<lambda>d.
     bnd (createVariable d ''depthv'' Float32 [''depthv'']) (\<lambda>d.
     bnd (createVariable d ''time_counter'' Float64 [''time_counter'']) (\<lambda>d.
     bnd (createVariable d ''vomecrty'' Float32 [''time_counter'', ''depthv'', ''y'', ''x'']) (\<lambda>d.
     bnd (coord_len (lat_v self)) (\<lambda>ny.
     bnd (for_range [0..<ny] (\<lambda>y d.
            bnd (coord_array (lon_v self)) (var_setitem cast d ''nav_lon'' [At y, Every])) d) (\<lambda>d.
     bnd (coord_first (lon_u self)) (\<lambda>a.
     bnd (var_setattr d ''nav_lon'' ''valid_min'' a) (\<lambda>d.
     bnd (coord_last (lon_u self)) (\<lambda>a.
     bnd (var_setattr d ''nav_lon'' ''valid_max'' a) (\<lambda>d.
     bnd (coord_len (lon_v self)) (\<lambda>nx.
     bnd (for_range [0..<nx] (\<lambda>x d.
            bnd (coord_array (lat_v self)) (var_setitem cast d ''nav_lat'' [Every, At x])) d) (\<lambda>d.
     bnd (coord_first (lat_u self)) (\<lambda>a.
     bnd (var_setattr d ''nav_lat'' ''valid_min'' a) (\<lambda>d.
     bnd (coord_last (lat_u self)) (\<lambda>a.
     bnd (var_setattr d ''nav_lat'' ''valid_max'' a) (\<lambda>d.
     bnd (array1 (depth self)) (\<lambda>a.
     bnd (var_setitem cast d ''depthv'' [Every] a) (\<lambda>d.
     bnd (array1 (time_counter self)) (\<lambda>a.
     bnd (var_setitem cast d ''time_counter'' [Every] a) (\<lambda>d.
     bnd (transposed (flow_V self)) (\<lambda>a.
     bnd (var_setitem cast d ''vomecrty'' [At 0, At 0, Every, Every] a) (\<lambda>d.
     Inr d))))))))))))))))))))))))))))))"

text \<open>
  \<^verbatim>\<open>write(self, filename)\<close>. \<open>local\<close> is \<^verbatim>\<open>py.path.local\<close> followed by the conversion of
  the path to a string. The line is printed, the U file is written and closed, then the
  V file. What a call that raises leaves on disk is not modelled.
\<close>

definition NEMOGrid_write ::
  "(dtype \<Rightarrow> fval \<Rightarrow> fval) \<Rightarrow> (string \<Rightarrow> string) \<Rightarrow> 'sp NEMOGrid \<Rightarrow> world \<Rightarrow> string \<Rightarrow>
   error + world" where
  "NEMOGrid_write cast local self w filename =
     (let filepath = local filename;
          w = w\<lparr>stdout := stdout w @ [''Generating NEMO grid output: '' @ filepath]\<rparr>
      in bnd (write_u cast self) (\<lambda>du.
         let w = Dataset_close w (filepath @ ''_U.nc'') du
         in bnd (write_v cast self) (\<lambda>dv.
            Inr (Dataset_close w (filepath @ ''_V.nc'') dv))))"

subsection \<open>Closed forms used in the proofs\<close>

text \<open>
  The cells of a two-dimensional variable after the first \<open>k\<close> rounds of the loop
  \<^verbatim>\<open>for y in range(...): var[y, :] = xs\<close> (\<open>row_cells\<close>) and of the loop
  \<^verbatim>\<open>for x in range(...): var[:, x] = ys\<close> (\<open>col_cells\<close>).
\<close>

definition row_cells :: "(fval \<Rightarrow> fval) \<Rightarrow> fval list \<Rightarrow> nat \<Rightarrow> (nat list \<Rightarrow> fval) \<Rightarrow> nat list \<Rightarrow> fval" where
  "row_cells f xs k c ix =
     (case ix of [j, i] \<Rightarrow> if j < k \<and> i < length xs then f (xs ! i) else c ix | _ \<Rightarrow> c ix)"

definition col_cells :: "(fval \<Rightarrow> fval) \<Rightarrow> fval list \<Rightarrow> nat \<Rightarrow> (nat list \<Rightarrow> fval) \<Rightarrow> nat list \<Rightarrow> fval" where
  "col_cells f ys k c ix =
     (case ix of [j, i] \<Rightarrow> if i < k \<and> j < length ys then f (ys ! j) else c ix | _ \<Rightarrow> c ix)"

text \<open>
  What a read of \<^verbatim>\<open>var[0, 0, :, :]\<close> returns after the assignment
  \<^verbatim>\<open>var[0, 0, :, :] = T\<close> to a fresh variable whose last two dimensions have the
  lengths \<open>sy\<close> and \<open>sx\<close>.
\<close>

definition landed :: "(fval \<Rightarrow> fval) \<Rightarrow> fval list list \<Rightarrow> nat \<Rightarrow> nat \<Rightarrow> fval list list" where
  "landed f T sy sx =
     (case shape (A2 T) of None \<Rightarrow> []
      | Some dsh \<Rightarrow>
          map (\<lambda>a. map (\<lambda>b. case fetch (A2 T) dsh [sy, sx] [a, b] of
                              None \<Rightarrow> NC_FILL | Some v \<Rightarrow> f v) [0..<sx]) [0..<sy])"

text \<open>The array that is assigned for an attribute that may be \<^verbatim>\<open>None\<close>.\<close>

definition or_nan1 :: "fval list option \<Rightarrow> fval list" where
  "or_nan1 a = (case a of None \<Rightarrow> [NaN] | Some xs \<Rightarrow> xs)"

definition or_nan2 :: "fval list list option \<Rightarrow> fval list list" where
  "or_nan2 a = (case a of None \<Rightarrow> [[NaN]] | Some xss \<Rightarrow> xss)"

text \<open>
  The two halves of \<open>write\<close> differ in the names of the depth and the velocity variable
  and in the arrays they read. \<open>write_half\<close> is their common text with these as
  arguments; \<open>write_u\<close> and \<open>write_v\<close> are shown below to be its two instances.
\<close>

datatype half = HalfU | HalfV

fun depth_name :: "half \<Rightarrow> string" where
  "depth_name HalfU = ''depthu''"
| "depth_name HalfV = ''depthv''"

fun vel_name :: "half \<Rightarrow> string" where
  "vel_name HalfU = ''vozocrtx''"
| "vel_name HalfV = ''vomecrty''"

definition write_half ::
  "(dtype \<Rightarrow> fval \<Rightarrow> fval) \<Rightarrow> half \<Rightarrow> coord option \<Rightarrow> coord option \<Rightarrow> coord option \<Rightarrow>
   coord option \<Rightarrow> fval list option \<Rightarrow> fval list option \<Rightarrow> fval list list option \<Rightarrow>
   error + dataset" where
  "write_half cast h lon lat alon alat dp tc fl =
     bnd (coord_len lon) (\<lambda>nx.
     bnd (createDimension empty_dataset ''x'' (Some nx)) (\<lambda>d.
     bnd (coord_len lat) (\<lambda>ny.
     bnd (createDimension d ''y'' (Some ny)) (\<lambda>d.
     bnd (np_size dp) (\<lambda>nd.
     bnd (createDimension d (depth_name h) (Some nd)) (\<lambda>d.
     bnd (createDimension d ''time_counter'' None) (\<lambda>d.
     bnd (createVariable d ''nav_lon'' Float32 [''y'', ''x'']) (\<lambda>d.
     bnd (createVariable d ''nav_lat'' Float32 [''y'', ''x'']) (\<lambda>d.
     bnd (createVariable d (depth_name h) Float32 [depth_name h]) (\<lambda>d.
     bnd (createVariable d ''time_counter'' Float64 [''time_counter'']) (\<lambda>d.
     bnd (createVariable d (vel_name h) Float32
            [''time_counter'', depth_name h, ''y'', ''x'']) (\<lambda>d.
     bnd (coord_len lat) (\<lambda>ny.
     bnd (for_range [0..<ny] (\<lambda>y d.
            bnd (coord_array lon) (var_setitem cast d ''nav_lon'' [At y, Every])) d) (\<lambda>d.
     bnd (coord_first alon) (\<lambda>a.
     bnd (var_setattr d ''nav_lon'' ''valid_min'' a) (\<lambda>d.
     bnd (coord_last alon) (\<lambda>a.
     bnd (var_setattr d ''nav_lon'' ''valid_max'' a) (\<lambda>d.
     bnd (coord_len lon) (\<lambda>nx.
     bnd (for_range [0..<nx] (\<lambda>x d.
            bnd (coord_array lat) (var_setitem cast d ''nav_lat'' [Every, At x])) d) (\<lambda>d.
     bnd (coord_first alat) (\<lambda>a.
     bnd (var_setattr d ''nav_lat'' ''valid_min'' a) (\<lambda>d.
     bnd (coord_last alat) (\<lambda>a.
     bnd (var_setattr d ''nav_lat'' ''valid_max'' a) (\<lambda>d.
     bnd (array1 dp) (\<lambda>a.
     bnd (var_setitem cast d (depth_name h) [Every] a) (\<lambda>d.
     bnd (array1 tc) (\<lambda>a.
     bnd (var_setitem cast d ''time_counter'' [Every] a) (\<lambda>d.
     bnd (transposed fl) (\<lambda>a.
     bnd (var_setitem cast d (vel_name h) [At 0, At 0, Every, Every] a) (\<lambda>d.
     Inr d))))))))))))))))))))))))))))))"

section \<open>Example data\<close>

text \<open>
  Two small files in the layout \<open>__init__\<close> reads: a 2 by 2 grid with one time and one
  depth level. The U field has a NaN at \<open>[0, 0, 0, 1]\<close>; the V field is all NaN. The
  spline library is replaced by a constructor that records its arguments and an evaluator
  that looks a grid value up.
\<close>

definition ex_file :: "string \<Rightarrow> string \<Rightarrow> (nat list \<Rightarrow> fval) \<Rightarrow> dataset" where
  "ex_file depthname velname cells =
     \<lparr>ds_dims = [''x'' \<mapsto> \<lparr>dim_len = 2, dim_unlimited = False\<rparr>,
                 ''y'' \<mapsto> \<lparr>dim_len = 2, dim_unlimited = False\<rparr>,
                 depthname \<mapsto> \<lparr>dim_len = 1, dim_unlimited = False\<rparr>,
                 ''time_counter'' \<mapsto> \<lparr>dim_len = 1, dim_unlimited = True\<rparr>],
      ds_vars = [''nav_lon'' \<mapsto> \<lparr>var_dtype = Float32, var_dims = [''y'', ''x''],
                    var_attrs = Map.empty,
                    var_cells = (\<lambda>ix. case ix of [j, i] \<Rightarrow> Fin (real i) | _ \<Rightarrow> NC_FILL)\<rparr>,
                 ''nav_lat'' \<mapsto> \<lparr>var_dtype = Float32, var_dims = [''y'', ''x''],
                    var_attrs = Map.empty,
                    var_cells = (\<lambda>ix. case ix of [j, i] \<Rightarrow> Fin (real j) | _ \<Rightarrow> NC_FILL)\<rparr>,
                 velname \<mapsto> \<lparr>var_dtype = Float32,
                    var_dims = [''time_counter'', depthname, ''y'', ''x''],
                    var_attrs = Map.empty, var_cells = cells\<rparr>]\<rparr>"

definition ex_cells :: "nat list \<Rightarrow> fval" where
  "ex_cells ix = (if ix = [0, 0, 0, 1] then NaN else if ix = [0, 0, 1, 0] then Fin 2 else Fin 1)"

definition ex_world :: world where
  "ex_world = \<lparr>files = [''/data/nemo_U.nc'' \<mapsto> ex_file ''depthu'' ''vozocrtx'' ex_cells,
                         ''/data/nemo_V.nc'' \<mapsto> ex_file ''depthv'' ''vomecrty'' (\<lambda>_. NaN)],
               stdout = []\<rparr>"

definition ex_rbs ::
  "fval list \<Rightarrow> fval list \<Rightarrow> fval list list \<Rightarrow> int \<Rightarrow> int
   \<Rightarrow> (fval list \<times> fval list \<times> fval list list \<times> int \<times> int) option" where
  "ex_rbs xs ys zss kx ky = Some (xs, ys, zss, kx, ky)"

definition ex_ev ::
  "(fval list \<times> fval list \<times> fval list list \<times> int \<times> int) \<Rightarrow> nat \<Rightarrow> nat \<Rightarrow> error + fval" where
  "ex_ev s y x = (case s of (xs, ys, zss, kx, ky) \<Rightarrow> Inr (zss ! y ! x))"

text \<open>A heap with three grids: grids 1 and 2 have no \<open>_particles\<close> of their own, grid 3 has.\<close>

definition ex_heap :: "(unit, string) pyheap" where
  "ex_heap = \<lparr>class_particles = 0, list_objs = (\<lambda>_. [])(0 := [''p0''], 5 := [''q'']),
              instances = (\<lambda>_. new_grid)(3 := new_grid\<lparr>own_particles := Some 5\<rparr>)\<rparr>"

text \<open>
  A grid filled in by hand, as \<open>write\<close> expects it: three longitudes, two latitudes, U
  and V of shape (3, 2), with different coordinates for U and V. Every number of the
  example is stored unchanged; \<^verbatim>\<open>py.path.local\<close> resolves a name in the directory
  \<open>/work\<close>; the disk is empty.
\<close>

definition ex_grid :: "(fval list \<times> fval list \<times> fval list list \<times> int \<times> int) NEMOGrid" where
  "ex_grid = new_grid
     \<lparr>depth := Some [Fin 0], time_counter := Some [Fin 0],
      lon_u := Some (Array1 [Fin 10, Fin 20, Fin 30]),
      lat_u := Some (Array1 [Fin (- 40), Fin (- 30)]),
      lon_v := Some (Array1 [Fin 15, Fin 25, Fin 35]),
      lat_v := Some (Array1 [Fin (- 45), Fin (- 35)]),
      flow_U := Some [[Fin 1, Fin 2], [Fin 3, Fin 4], [Fin 5, Fin 6]],
      flow_V := Some [[Fin 0, Fin 7], [Fin 8, Fin 9], [Fin 10, Fin 11]]\<rparr>"

definition ex_cast :: "dtype \<Rightarrow> fval \<Rightarrow> fval" where
  "ex_cast dt a = a"

definition ex_local :: "string \<Rightarrow> string" where
  "ex_local p = ''/work/'' @ p"

definition ex_disk :: world where
  "ex_disk = \<lparr>files = Map.empty, stdout = []\<rparr>"


text \<open>
  A second grid, for writing and reading back: as \<open>ex_grid\<close>, with the V coordinates
  inside the range of the U coordinates, so that no coordinate of the V file lies outside
  the valid range \<open>write\<close> gives it. With it a spline constructor that refuses what
  SciPy's \<^verbatim>\<open>RectBivariateSpline\<close> refuses: a degree outside 1 to 5, no more points than
  the degree in a direction, coordinates that are not strictly increasing, a field of
  another shape than the coordinates.
\<close>

definition ex_grid_in :: "(fval list \<times> fval list \<times> fval list list \<times> int \<times> int) NEMOGrid" where
  "ex_grid_in = ex_grid
     \<lparr>lon_v := Some (Array1 [Fin 12, Fin 20, Fin 28]),
      lat_v := Some (Array1 [Fin (- 38), Fin (- 32)])\<rparr>"

definition ex_spline ::
  "fval list \<Rightarrow> fval list \<Rightarrow> fval list list \<Rightarrow> int \<Rightarrow> int
   \<Rightarrow> (fval list \<times> fval list \<times> fval list list \<times> int \<times> int) option" where
  "ex_spline xs ys zss kx ky =
     (if 1 \<le> kx \<and> kx \<le> 5 \<and> 1 \<le> ky \<and> ky \<le> 5
         \<and> kx < int (length xs) \<and> ky < int (length ys)
         \<and> sorted_wrt fless xs \<and> sorted_wrt fless ys
         \<and> length zss = length xs \<and> list_all (\<lambda>r. length r = length ys) zss
      then Some (xs, ys, zss, kx, ky) else None)"

text \<open>
  Two more grids. In \<open>ex_grid64\<close> one entry of U is \<open>1 + 1 / 2 ^ 30\<close>, a float64 number that
  is no float32 number: float32 has 24 significant bits and stores it as 1. \<open>ex_round32\<close>
  is the conversion on the numbers of this grid, all others being float32 numbers. In
  \<open>ex_grid_yx\<close> the field U has the shape (2, 3) of the arrays \<open>__init__\<close> reads, not the
  shape (3, 2) whose transpose fits the variable.
\<close>

definition ex_round32 :: "dtype \<Rightarrow> fval \<Rightarrow> fval" where
  "ex_round32 dt a = (if dt = Float32 \<and> a = Fin (1 + 1 / 2 ^ 30) then Fin 1 else a)"


section \<open>Properties\<close>

subsection \<open>Sequencing and reading\<close>

lemma bnd_Inr_iff: "bnd m f = Inr b \<longleftrightarrow> (\<exists>a. m = Inr a \<and> f a = Inr b)"
  by (cases m) (simp_all add: bnd_def)

lemma bnd_Inr [simp]: "bnd (Inr a) f = f a"
  by (simp add: bnd_def)

lemma bnd_Inl [simp]: "bnd (Inl e) f = Inl e"
  by (simp add: bnd_def)

lemma as_A2_Inr: "as_A2 a = Inr xss \<longleftrightarrow> a = A2 xss"
  by (cases a) (simp_all add: as_A2_def)

lemma as_A1_Inr: "as_A1 a = Inr xs \<longleftrightarrow> a = A1 xs"
  by (cases a) (simp_all add: as_A1_def)

lemma fit_Inr: "fit rbs xs ys zss kx ky = Inr s \<longleftrightarrow> rbs xs ys zss kx ky = Some s"
  by (simp add: fit_def split: option.splits)

lemma Dataset_r_Inr: "Dataset_r w p = Inr d \<longleftrightarrow> files w p = Some d"
  by (simp add: Dataset_r_def split: option.splits)

lemma Dataset_getitem_Inr:
  "Dataset_getitem d name = Inr c \<longleftrightarrow> name \<in> dom (ds_vars d) \<and> c = Handle d name"
  by (auto simp: Dataset_getitem_def split: option.splits)

lemma mask_assign_isnan:
  "mask_assign xss (np_isnan xss) c = map (map (\<lambda>a. if isnan a then c else a)) xss"
proof -
  have row: "map2 (\<lambda>a m. if m then c else a) r (map isnan r) = map (\<lambda>a. if isnan a then c else a) r" for r
    by (induction r) simp_all
  show ?thesis unfolding mask_assign_def np_isnan_def
    by (induction xss) (simp_all add: row)
qed

lemma mask_assign_no_nan:
  "r \<in> set (mask_assign xss (np_isnan xss) (Fin 0)) \<Longrightarrow> a \<in> set r \<Longrightarrow> \<not> isnan a"
  by (auto simp: mask_assign_isnan isnan_def)

lemma init_Some:
  assumes "filename \<noteq> []"
  shows "NEMOGrid_init rbs w (Some filename) degree_opt = Inr g \<longleftrightarrow>
    (\<exists>du dv U0 V0 latu0 lonu0 latv0 lonv0 su sv.
        files w (filename @ ''_U.nc'') = Some du \<and> files w (filename @ ''_V.nc'') = Some dv
      \<and> ''nav_lon'' \<in> dom (ds_vars du) \<and> ''nav_lat'' \<in> dom (ds_vars du)
      \<and> ''nav_lon'' \<in> dom (ds_vars dv) \<and> ''nav_lat'' \<in> dom (ds_vars dv)
      \<and> var_getitem du ''vozocrtx'' [At 0, At 0, Every, Every] = Inr (A2 U0)
      \<and> var_getitem dv ''vomecrty'' [At 0, At 0, Every, Every] = Inr (A2 V0)
      \<and> var_getitem du ''nav_lat'' [Every, At 0] = Inr (A1 latu0)
      \<and> var_getitem du ''nav_lon'' [At 0, Every] = Inr (A1 lonu0)
      \<and> var_getitem dv ''nav_lat'' [Every, At 0] = Inr (A1 latv0)
      \<and> var_getitem dv ''nav_lon'' [At 0, Every] = Inr (A1 lonv0)
      \<and> rbs latu0 lonu0 (mask_assign U0 (np_isnan U0) (Fin 0))
            (case degree_opt of None \<Rightarrow> 3 | Some k \<Rightarrow> k)
            (case degree_opt of None \<Rightarrow> 3 | Some k \<Rightarrow> k) = Some su
      \<and> rbs latv0 lonv0 (mask_assign V0 (np_isnan V0) (Fin 0))
            (case degree_opt of None \<Rightarrow> 3 | Some k \<Rightarrow> k)
            (case degree_opt of None \<Rightarrow> 3 | Some k \<Rightarrow> k) = Some sv
      \<and> g = new_grid\<lparr>dset_u := Some du, dset_v := Some dv,
                       lon_u := Some (Handle du ''nav_lon''), lat_u := Some (Handle du ''nav_lat''),
                       lon_v := Some (Handle dv ''nav_lon''), lat_v := Some (Handle dv ''nav_lat''),
                       flow_U := Some (mask_assign U0 (np_isnan U0) (Fin 0)),
                       flow_V := Some (mask_assign V0 (np_isnan V0) (Fin 0)),
                       interp_u := Some su, interp_v := Some sv\<rparr>)"
  using assms
  apply (simp add: NEMOGrid_init_def Let_def bnd_Inr_iff as_A2_Inr as_A1_Inr fit_Inr Dataset_r_Inr Dataset_getitem_Inr
        cong: conj_cong)
  apply (auto)
  done

lemmas ex_init_defs = NEMOGrid_init_def ex_world_def Dataset_r_def Dataset_getitem_def ex_file_def
  var_getitem_def as_A2_def as_A1_def fit_def ex_rbs_def mask_assign_def np_isnan_def isnan_def
  ex_cells_def Let_def upt_rec new_grid_def

subsection \<open>\_\_init\_\_ replaces NaN by zero\<close>

text \<open>
  Claim C5. After \<open>__init__\<close> with a file name, the stored U and V arrays hold no NaN:
  they are the arrays read from \<open>vozocrtx[0, 0, :, :]\<close> and \<open>vomecrty[0, 0, :, :]\<close> with
  every NaN replaced by \<open>0.0\<close> and every other entry kept, and the splines are fitted to
  the cleaned arrays.
\<close>

theorem init_replaces_nan:
  assumes "filename \<noteq> []"
    and "NEMOGrid_init rbs w (Some filename) degree_opt = Inr g"
  shows "\<exists>du dv U0 V0 U1 V1.
      files w (filename @ ''_U.nc'') = Some du \<and> files w (filename @ ''_V.nc'') = Some dv
    \<and> var_getitem du ''vozocrtx'' [At 0, At 0, Every, Every] = Inr (A2 U0)
    \<and> var_getitem dv ''vomecrty'' [At 0, At 0, Every, Every] = Inr (A2 V0)
    \<and> flow_U g = Some U1 \<and> flow_V g = Some V1
    \<and> U1 = map (map (\<lambda>a. if isnan a then Fin 0 else a)) U0
    \<and> V1 = map (map (\<lambda>a. if isnan a then Fin 0 else a)) V0
    \<and> (\<forall>r \<in> set U1. \<forall>a \<in> set r. \<not> isnan a)
    \<and> (\<forall>r \<in> set V1. \<forall>a \<in> set r. \<not> isnan a)
    \<and> (\<exists>xs ys k. interp_u g = rbs xs ys U1 k k \<and> interp_u g \<noteq> None)
    \<and> (\<exists>xs ys k. interp_v g = rbs xs ys V1 k k \<and> interp_v g \<noteq> None)"
proof -
  from assms obtain du dv U0 V0 latu0 lonu0 latv0 lonv0 su sv where
    f: "files w (filename @ ''_U.nc'') = Some du" "files w (filename @ ''_V.nc'') = Some dv"
    and r: "var_getitem du ''vozocrtx'' [At 0, At 0, Every, Every] = Inr (A2 U0)"
      "var_getitem dv ''vomecrty'' [At 0, At 0, Every, Every] = Inr (A2 V0)"
    and s: "rbs latu0 lonu0 (mask_assign U0 (np_isnan U0) (Fin 0))
            (case degree_opt of None \<Rightarrow> 3 | Some k \<Rightarrow> k)
            (case degree_opt of None \<Rightarrow> 3 | Some k \<Rightarrow> k) = Some su"
       "rbs latv0 lonv0 (mask_assign V0 (np_isnan V0) (Fin 0))
            (case degree_opt of None \<Rightarrow> 3 | Some k \<Rightarrow> k)
            (case degree_opt of None \<Rightarrow> 3 | Some k \<Rightarrow> k) = Some sv"
    and g: "g = new_grid\<lparr>dset_u := Some du, dset_v := Some dv,
                       lon_u := Some (Handle du ''nav_lon''), lat_u := Some (Handle du ''nav_lat''),
                       lon_v := Some (Handle dv ''nav_lon''), lat_v := Some (Handle dv ''nav_lat''),
                       flow_U := Some (mask_assign U0 (np_isnan U0) (Fin 0)),
                       flow_V := Some (mask_assign V0 (np_isnan V0) (Fin 0)),
                       interp_u := Some su, interp_v := Some sv\<rparr>"
    unfolding init_Some [OF assms(1)] by blast
  let ?U1 = "mask_assign U0 (np_isnan U0) (Fin 0)"
  let ?V1 = "mask_assign V0 (np_isnan V0) (Fin 0)"
  have iu: "\<exists>xs ys k. interp_u g = rbs xs ys ?U1 k k \<and> interp_u g \<noteq> None"
    using s(1) by (simp add: g) (rule exI, rule exI, rule exI, erule sym)
  have iv: "\<exists>xs ys k. interp_v g = rbs xs ys ?V1 k k \<and> interp_v g \<noteq> None"
    using s(2) by (simp add: g) (rule exI, rule exI, rule exI, erule sym)
  have nu: "\<forall>r \<in> set ?U1. \<forall>a \<in> set r. \<not> isnan a"
    and nv: "\<forall>r \<in> set ?V1. \<forall>a \<in> set r. \<not> isnan a"
    using mask_assign_no_nan by blast+
  have fu: "flow_U g = Some ?U1" and fv: "flow_V g = Some ?V1"
    by (simp_all add: g)
  note eqs = mask_assign_isnan [of U0 "Fin 0"] mask_assign_isnan [of V0 "Fin 0"]
  show ?thesis
    by (rule exI [of _ du], rule exI [of _ dv], rule exI [of _ U0], rule exI [of _ V0],
        rule exI [of _ ?U1], rule exI [of _ ?V1], intro conjI)
       (fact f r fu fv eqs nu nv iu iv)+
qed

theorem init_replaces_nan_witness:
  "''/data/nemo'' \<noteq> [] \<and>
   (\<exists>g. NEMOGrid_init ex_rbs ex_world (Some ''/data/nemo'') None = Inr g
      \<and> flow_U g = Some [[Fin 1, Fin 0], [Fin 2, Fin 1]]
      \<and> flow_V g = Some [[Fin 0, Fin 0], [Fin 0, Fin 0]])"
proof -
  have ne: "''/data/nemo'' \<noteq> []" by simp
  obtain g where g: "NEMOGrid_init ex_rbs ex_world (Some ''/data/nemo'') None = Inr g"
    by (simp add: ex_init_defs)
  from init_replaces_nan [OF ne g] obtain du dv U0 V0 where
    f: "files ex_world (''/data/nemo'' @ ''_U.nc'') = Some du"
       "files ex_world (''/data/nemo'' @ ''_V.nc'') = Some dv"
    and r: "var_getitem du ''vozocrtx'' [At 0, At 0, Every, Every] = Inr (A2 U0)"
       "var_getitem dv ''vomecrty'' [At 0, At 0, Every, Every] = Inr (A2 V0)"
    and fl: "flow_U g = Some (map (map (\<lambda>a. if isnan a then Fin 0 else a)) U0)"
       "flow_V g = Some (map (map (\<lambda>a. if isnan a then Fin 0 else a)) V0)"
    by blast
  from f have "du = ex_file ''depthu'' ''vozocrtx'' ex_cells"
    and "dv = ex_file ''depthv'' ''vomecrty'' (\<lambda>_. NaN)"
    by (simp_all add: ex_world_def)
  with r have "U0 = [[Fin 1, NaN], [Fin 2, Fin 1]]" and "V0 = [[NaN, NaN], [NaN, NaN]]"
    by (auto simp: ex_file_def var_getitem_def upt_rec ex_cells_def)
  with fl have "flow_U g = Some [[Fin 1, Fin 0], [Fin 2, Fin 1]]"
    and "flow_V g = Some [[Fin 0, Fin 0], [Fin 0, Fin 0]]"
    by (simp_all add: isnan_def)
  with g ne show ?thesis by blast
qed

subsection \<open>eval evaluates the fitted splines\<close>

text \<open>
  Claim C7. For a grid built from a file, \<open>eval(x, y)\<close> is the pair of the values at
  \<open>(y, x)\<close> of the two splines that the constructor fitted over the first column of
  \<open>nav_lat\<close> and the first row of \<open>nav_lon\<close> to the NaN-free U and V arrays, with the
  constructor's degree argument (3 when it is not given) in both directions.
\<close>

theorem eval_fitted_splines:
  assumes "filename \<noteq> []"
    and "NEMOGrid_init rbs w (Some filename) degree_opt = Inr g"
  shows "\<exists>du dv latu0 lonu0 latv0 lonv0 U1 V1 su sv.
      files w (filename @ ''_U.nc'') = Some du \<and> files w (filename @ ''_V.nc'') = Some dv
    \<and> var_getitem du ''nav_lat'' [Every, At 0] = Inr (A1 latu0)
    \<and> var_getitem du ''nav_lon'' [At 0, Every] = Inr (A1 lonu0)
    \<and> var_getitem dv ''nav_lat'' [Every, At 0] = Inr (A1 latv0)
    \<and> var_getitem dv ''nav_lon'' [At 0, Every] = Inr (A1 lonv0)
    \<and> flow_U g = Some U1 \<and> flow_V g = Some V1
    \<and> (\<forall>r \<in> set U1. \<forall>a \<in> set r. \<not> isnan a)
    \<and> (\<forall>r \<in> set V1. \<forall>a \<in> set r. \<not> isnan a)
    \<and> rbs latu0 lonu0 U1 (case degree_opt of None \<Rightarrow> 3 | Some k \<Rightarrow> k)
         (case degree_opt of None \<Rightarrow> 3 | Some k \<Rightarrow> k) = Some su
    \<and> rbs latv0 lonv0 V1 (case degree_opt of None \<Rightarrow> 3 | Some k \<Rightarrow> k)
         (case degree_opt of None \<Rightarrow> 3 | Some k \<Rightarrow> k) = Some sv
    \<and> (\<forall>x y. NEMOGrid_eval ev g x y =
          bnd (ev su y x) (\<lambda>u. bnd (ev sv y x) (\<lambda>v. Inr (u, v))))"
proof -
  from assms obtain du dv U0 V0 latu0 lonu0 latv0 lonv0 su sv where
    f: "files w (filename @ ''_U.nc'') = Some du" "files w (filename @ ''_V.nc'') = Some dv"
    and c: "var_getitem du ''nav_lat'' [Every, At 0] = Inr (A1 latu0)"
      "var_getitem du ''nav_lon'' [At 0, Every] = Inr (A1 lonu0)"
      "var_getitem dv ''nav_lat'' [Every, At 0] = Inr (A1 latv0)"
      "var_getitem dv ''nav_lon'' [At 0, Every] = Inr (A1 lonv0)"
    and s: "rbs latu0 lonu0 (mask_assign U0 (np_isnan U0) (Fin 0))
            (case degree_opt of None \<Rightarrow> 3 | Some k \<Rightarrow> k)
            (case degree_opt of None \<Rightarrow> 3 | Some k \<Rightarrow> k) = Some su"
       "rbs latv0 lonv0 (mask_assign V0 (np_isnan V0) (Fin 0))
            (case degree_opt of None \<Rightarrow> 3 | Some k \<Rightarrow> k)
            (case degree_opt of None \<Rightarrow> 3 | Some k \<Rightarrow> k) = Some sv"
    and g: "g = new_grid\<lparr>dset_u := Some du, dset_v := Some dv,
                       lon_u := Some (Handle du ''nav_lon''), lat_u := Some (Handle du ''nav_lat''),
                       lon_v := Some (Handle dv ''nav_lon''), lat_v := Some (Handle dv ''nav_lat''),
                       flow_U := Some (mask_assign U0 (np_isnan U0) (Fin 0)),
                       flow_V := Some (mask_assign V0 (np_isnan V0) (Fin 0)),
                       interp_u := Some su, interp_v := Some sv\<rparr>"
    unfolding init_Some [OF assms(1)] by blast
  let ?U1 = "mask_assign U0 (np_isnan U0) (Fin 0)"
  let ?V1 = "mask_assign V0 (np_isnan V0) (Fin 0)"
  have nu: "\<forall>r \<in> set ?U1. \<forall>a \<in> set r. \<not> isnan a"
    and nv: "\<forall>r \<in> set ?V1. \<forall>a \<in> set r. \<not> isnan a"
    using mask_assign_no_nan by blast+
  have fu: "flow_U g = Some ?U1" and fv: "flow_V g = Some ?V1"
    by (simp_all add: g)
  have e: "\<forall>x y. NEMOGrid_eval ev g x y =
          bnd (ev su y x) (\<lambda>u. bnd (ev sv y x) (\<lambda>v. Inr (u, v)))"
    by (simp add: NEMOGrid_eval_def getattr_interp_def g)
  show ?thesis
    by (rule exI [of _ du], rule exI [of _ dv], rule exI [of _ latu0], rule exI [of _ lonu0],
        rule exI [of _ latv0], rule exI [of _ lonv0], rule exI [of _ ?U1], rule exI [of _ ?V1],
        rule exI [of _ su], rule exI [of _ sv], intro conjI)
       (fact f c fu fv nu nv s e)+
qed

theorem eval_fitted_splines_witness:
  "''/data/nemo'' \<noteq> [] \<and>
   (\<exists>g. NEMOGrid_init ex_rbs ex_world (Some ''/data/nemo'') None = Inr g
      \<and> interp_u g = Some ([Fin 0, Fin 1], [Fin 0, Fin 1], [[Fin 1, Fin 0], [Fin 2, Fin 1]], 3, 3)
      \<and> NEMOGrid_eval ex_ev g 0 1 = Inr (Fin 2, Fin 0))"
proof -
  have ne: "''/data/nemo'' \<noteq> []" by simp
  obtain g where g: "NEMOGrid_init ex_rbs ex_world (Some ''/data/nemo'') None = Inr g"
    by (simp add: ex_init_defs)
  from eval_fitted_splines [OF ne g, of ex_ev] obtain du dv latu0 lonu0 latv0 lonv0 U1 V1 su sv where
    f: "files ex_world (''/data/nemo'' @ ''_U.nc'') = Some du"
       "files ex_world (''/data/nemo'' @ ''_V.nc'') = Some dv"
    and c: "var_getitem du ''nav_lat'' [Every, At 0] = Inr (A1 latu0)"
      "var_getitem du ''nav_lon'' [At 0, Every] = Inr (A1 lonu0)"
      "var_getitem dv ''nav_lat'' [Every, At 0] = Inr (A1 latv0)"
      "var_getitem dv ''nav_lon'' [At 0, Every] = Inr (A1 lonv0)"
    and fl: "flow_U g = Some U1" "flow_V g = Some V1"
    and s: "ex_rbs latu0 lonu0 U1 3 3 = Some su" "ex_rbs latv0 lonv0 V1 3 3 = Some sv"
    and e: "\<forall>x y. NEMOGrid_eval ex_ev g x y =
          bnd (ex_ev su y x) (\<lambda>u. bnd (ex_ev sv y x) (\<lambda>v. Inr (u, v)))"
    by auto
  from f have d: "du = ex_file ''depthu'' ''vozocrtx'' ex_cells"
    "dv = ex_file ''depthv'' ''vomecrty'' (\<lambda>_. NaN)"
    by (simp_all add: ex_world_def)
  from c have co: "latu0 = [Fin 0, Fin 1]" "lonu0 = [Fin 0, Fin 1]"
    "latv0 = [Fin 0, Fin 1]" "lonv0 = [Fin 0, Fin 1]"
    unfolding d by (auto simp: ex_file_def var_getitem_def upt_rec)
  from g fl have u: "U1 = [[Fin 1, Fin 0], [Fin 2, Fin 1]]" "V1 = [[Fin 0, Fin 0], [Fin 0, Fin 0]]"
    by (auto simp: ex_init_defs)
  from s have su: "su = ([Fin 0, Fin 1], [Fin 0, Fin 1], [[Fin 1, Fin 0], [Fin 2, Fin 1]], 3, 3)"
    and sv: "sv = ([Fin 0, Fin 1], [Fin 0, Fin 1], [[Fin 0, Fin 0], [Fin 0, Fin 0]], 3, 3)"
    unfolding co u by (simp_all add: ex_rbs_def)
  have "interp_u g = Some su"
    using g by (auto simp: ex_init_defs su)
  moreover have "NEMOGrid_eval ex_ev g 0 1 = Inr (Fin 2, Fin 0)"
    using e by (simp add: su sv ex_ev_def)
  ultimately show ?thesis using g ne su by blast
qed

subsection \<open>The particle list is shared by all grids\<close>

text \<open>
  Claim C8. For two grids without a \<open>_particles\<close> attribute of their own,
  \<open>g1.add_particle(p)\<close> appends \<open>p\<close> to the one list of the class, so \<open>p\<close> is in
  \<open>g2._particles\<close> afterwards; the grids, the class attribute and every other list are
  unchanged.
\<close>

theorem add_particle_shared:
  assumes "own_particles (instances h g1) = None" and "own_particles (instances h g2) = None"
  shows "particles_of (add_particle h g1 p) g2 = particles_of h g2 @ [p]
       \<and> p \<in> set (particles_of (add_particle h g1 p) g2)
       \<and> getattr_particles (add_particle h g1 p) g1 = class_particles h
       \<and> getattr_particles (add_particle h g1 p) g2 = class_particles h
       \<and> instances (add_particle h g1 p) = instances h
       \<and> class_particles (add_particle h g1 p) = class_particles h
       \<and> (\<forall>r. r \<noteq> class_particles h \<longrightarrow> list_objs (add_particle h g1 p) r = list_objs h r)"
  using assms
  by (simp add: add_particle_def list_append_def particles_of_def getattr_particles_def)

theorem add_particle_shared_witness:
  "own_particles (instances ex_heap 1) = None \<and> own_particles (instances ex_heap 2) = None
   \<and> particles_of (add_particle ex_heap 1 ''p1'') 2 = [''p0'', ''p1'']
   \<and> particles_of (add_particle ex_heap 1 ''p1'') 3 = [''q'']"
  using add_particle_shared [of ex_heap 1 2 "''p1''"]
  by (simp add: ex_heap_def new_grid_def particles_of_def getattr_particles_def add_particle_def list_append_def)

subsection \<open>Slice assignment and the loops of write\<close>

lemma for_range_append:
  "for_range (xs @ ys) body s = bnd (for_range xs body s) (for_range ys body)"
  by (induction xs arbitrary: s) (simp_all add: bnd_def split: sum.splits)

lemma locate_row:
  "locate [At k, Every] ix = (case ix of [j, i] \<Rightarrow> if k = j then Some [i] else None | _ \<Rightarrow> None)"
  by (auto split: list.splits)

lemma locate_col:
  "locate [Every, At k] ix = (case ix of [j, i] \<Rightarrow> if k = i then Some [j] else None | _ \<Rightarrow> None)"
  by (auto split: list.splits)

lemma conforms_refl [simp]: "conforms sh sh"
  by (simp add: conforms_def)

lemma in_shape_1: "in_shape [n] pos \<longleftrightarrow> (\<exists>i. pos = [i] \<and> i < n)"
  by (cases pos) (auto simp: in_shape_def list_all2_Cons2)

lemma in_shape_2: "in_shape [m, n] pos \<longleftrightarrow> (\<exists>j i. pos = [j, i] \<and> j < m \<and> i < n)"
  by (auto simp: in_shape_def list_all2_Cons2)

lemma nd_get_A1:
  "nd_get (A1 xs) pos = (case pos of [i] \<Rightarrow> if i < length xs then Some (xs ! i) else None | _ \<Rightarrow> None)"
  by (cases "(A1 xs, pos)" rule: nd_get.cases) auto

lemma nd_get_A2:
  "nd_get (A2 xss) pos =
     (case pos of [j, i] \<Rightarrow> if j < length xss \<and> i < length (xss ! j) then Some (xss ! j ! i) else None
      | _ \<Rightarrow> None)"
  by (cases "(A2 xss, pos)" rule: nd_get.cases) auto

lemma fetch_same_A1 [simp]: "fetch (A1 xs) [length xs] [length xs] = nd_get (A1 xs)"
proof (rule ext)
  fix pos
  show "fetch (A1 xs) [length xs] [length xs] pos = nd_get (A1 xs) pos"
  proof (cases "in_shape [length xs] pos")
    case True
    then show ?thesis by (auto simp: fetch_def in_shape_1 numel_def)
  next
    case False
    then have "nd_get (A1 xs) pos = None"
      by (auto simp: in_shape_1 nd_get_A1 split: list.splits)
    with False show ?thesis by (simp add: fetch_def)
  qed
qed

lemma concat_nth_rect:
  assumes "\<forall>r \<in> set xss. length r = n" and "j < length xss" and "i < n"
  shows "concat xss ! (j * n + i) = xss ! j ! i"
  using assms
proof (induction xss arbitrary: j)
  case Nil
  then show ?case by simp
next
  case (Cons r rs)
  show ?case
  proof (cases j)
    case 0
    with Cons.prems show ?thesis by (simp add: nth_append)
  next
    case (Suc j')
    with Cons.prems have "concat rs ! (j' * n + i) = rs ! j' ! i"
      by (intro Cons.IH) simp_all
    with Suc Cons.prems show ?thesis by (simp add: nth_append)
  qed
qed

lemma shape_A2_Some:
  assumes "shape (A2 xss) = Some [m, n]"
  shows "length xss = m" and "\<And>r. r \<in> set xss \<Longrightarrow> length r = n"
  using assms by (cases xss; auto simp: rect_def split: if_splits)+

lemma fetch_same_A2:
  assumes "shape (A2 xss) = Some [m, n]"
  shows "fetch (A2 xss) [m, n] [m, n] = nd_get (A2 xss)"
proof (rule ext)
  fix pos
  have len: "length xss = m" and row: "\<forall>r \<in> set xss. length r = n"
    using shape_A2_Some [OF assms] by auto
  show "fetch (A2 xss) [m, n] [m, n] pos = nd_get (A2 xss) pos"
  proof (cases "in_shape [m, n] pos")
    case True
    then obtain j i where p: "pos = [j, i]" "j < m" "i < n"
      by (auto simp: in_shape_2)
    then have "length (xss ! j) = n" using len row by simp
    with p True concat_nth_rect [OF row, of j i] len show ?thesis
      by (simp add: fetch_def numel_def)
  next
    case False
    have "nd_get (A2 xss) pos = None"
      using False len row by (auto simp: in_shape_2 nd_get_A2 split: list.splits)
    with False show ?thesis by (simp add: fetch_def)
  qed
qed

lemma row_cells_0: "row_cells f xs 0 c = c"
  by (rule ext) (simp add: row_cells_def split: list.splits)

lemma col_cells_0: "col_cells f ys 0 c = c"
  by (rule ext) (simp add: col_cells_def split: list.splits)

lemma row_cells_Suc:
  "put_cells f [At k, Every] (nd_get (A1 xs)) (row_cells f xs k c) = row_cells f xs (Suc k) c"
  by (rule ext) (auto simp: put_cells_def locate_row row_cells_def less_Suc_eq split: list.splits)

lemma col_cells_Suc:
  "put_cells f [Every, At k] (nd_get (A1 ys)) (col_cells f ys k c) = col_cells f ys (Suc k) c"
  by (rule ext) (auto simp: put_cells_def locate_col col_cells_def less_Suc_eq split: list.splits)

lemma slot_shape_row:
  assumes "dm dy = Some cy" and "dm dx = Some cx" and "slice_dim cx n = Some cx"
  shows "slot_shape dm [dy, dx] [At k, Every] (slice_extents [At k, Every] [n]) = Some [n]"
  using assms by (auto simp: slice_extents_def slice_dim_def split: if_splits)

lemma slot_shape_col:
  assumes "dm dy = Some cy" and "dm dx = Some cx" and "slice_dim cy n = Some cy"
  shows "slot_shape dm [dy, dx] [Every, At k] (slice_extents [Every, At k] [n]) = Some [n]"
  using assms by (auto simp: slice_extents_def slice_dim_def split: if_splits)

lemma row_loop:
  assumes "ds_vars d name = Some v" and "var_dims v = [dy, dx]" and "dy \<noteq> dx"
    and "ds_dims d dy = Some cy" and "ds_dims d dx = Some cx"
    and "k \<le> dim_len cy" and "slice_dim cx (length xs) = Some cx"
  shows "for_range [0..<k] (\<lambda>y d. var_setitem cast d name [At y, Every] (A1 xs)) d =
         Inr (d\<lparr>ds_vars := (ds_vars d)(name \<mapsto>
                v\<lparr>var_cells := row_cells (cast (var_dtype v)) xs k (var_cells v)\<rparr>)\<rparr>)"
  using assms(6)
proof (induction k)
  case 0
  then show ?case using assms(1) by (simp add: row_cells_0 map_upd_triv)
next
  case (Suc k)
  then have k: "k < dim_len cy" by simp
  have ix: "index_dim cy k = Some cy" using k by (simp add: index_dim_def)
  show ?case
    using Suc.IH k assms(1-5,7) ix slot_shape_row [OF assms(4,5,7)]
    by (simp add: for_range_append var_setitem_def map_upd_triv row_cells_Suc)
       (rule arg_cong [where f = "\<lambda>m. d\<lparr>ds_vars := m\<rparr>"], rule ext, simp)
qed

lemma col_loop:
  assumes "ds_vars d name = Some v" and "var_dims v = [dy, dx]" and "dy \<noteq> dx"
    and "ds_dims d dy = Some cy" and "ds_dims d dx = Some cx"
    and "k \<le> dim_len cx" and "slice_dim cy (length ys) = Some cy"
  shows "for_range [0..<k] (\<lambda>x d. var_setitem cast d name [Every, At x] (A1 ys)) d =
         Inr (d\<lparr>ds_vars := (ds_vars d)(name \<mapsto>
                v\<lparr>var_cells := col_cells (cast (var_dtype v)) ys k (var_cells v)\<rparr>)\<rparr>)"
  using assms(6)
proof (induction k)
  case 0
  then show ?case using assms(1) by (simp add: col_cells_0 map_upd_triv)
next
  case (Suc k)
  then have k: "k < dim_len cx" by simp
  have ix: "index_dim cx k = Some cx" using k by (simp add: index_dim_def)
  show ?case
    using Suc.IH k assms(1-5,7) ix slot_shape_col [OF assms(4,5,7)]
    by (simp add: for_range_append var_setitem_def map_upd_triv col_cells_Suc)
       (rule arg_cong [where f = "\<lambda>m. d\<lparr>ds_vars := m\<rparr>"], rule ext, simp)
qed

lemma slice_dim_same:
  "slice_dim \<lparr>dim_len = n, dim_unlimited = b\<rparr> n = Some \<lparr>dim_len = n, dim_unlimited = b\<rparr>"
  by (simp add: slice_dim_def)

lemma row_loop_yx:
  assumes "ds_vars d name \<noteq> None" and "var_dims (the (ds_vars d name)) = [''y'', ''x'']"
    and "ds_dims d ''y'' \<noteq> None" and "ds_dims d ''x'' \<noteq> None"
    and "k \<le> dim_len (the (ds_dims d ''y''))"
    and "slice_dim (the (ds_dims d ''x'')) (length xs) = Some (the (ds_dims d ''x''))"
  shows "for_range [0..<k] (\<lambda>y d. var_setitem cast d name [At y, Every] (A1 xs)) d =
         Inr (d\<lparr>ds_vars := (ds_vars d)(name \<mapsto> (the (ds_vars d name))
                \<lparr>var_cells := row_cells (cast (var_dtype (the (ds_vars d name)))) xs k
                     (var_cells (the (ds_vars d name)))\<rparr>)\<rparr>)"
  using assms
    row_loop [of d name "the (ds_vars d name)" "''y''" "''x''" "the (ds_dims d ''y'')"
      "the (ds_dims d ''x'')" k xs cast]
  by auto

lemma col_loop_yx:
  assumes "ds_vars d name \<noteq> None" and "var_dims (the (ds_vars d name)) = [''y'', ''x'']"
    and "ds_dims d ''y'' \<noteq> None" and "ds_dims d ''x'' \<noteq> None"
    and "k \<le> dim_len (the (ds_dims d ''x''))"
    and "slice_dim (the (ds_dims d ''y'')) (length ys) = Some (the (ds_dims d ''y''))"
  shows "for_range [0..<k] (\<lambda>x d. var_setitem cast d name [Every, At x] (A1 ys)) d =
         Inr (d\<lparr>ds_vars := (ds_vars d)(name \<mapsto> (the (ds_vars d name))
                \<lparr>var_cells := col_cells (cast (var_dtype (the (ds_vars d name)))) ys k
                     (var_cells (the (ds_vars d name)))\<rparr>)\<rparr>)"
  using assms
    col_loop [of d name "the (ds_vars d name)" "''y''" "''x''" "the (ds_dims d ''y'')"
      "the (ds_dims d ''x'')" k ys cast]
  by auto

lemma bnd_const_Inl [simp]: "bnd m (\<lambda>_. Inl e) = Inr b \<longleftrightarrow> False"
  by (cases m) simp_all

subsection \<open>What one half of write leaves in its dataset\<close>

lemma write_u_half:
  "write_u cast self = write_half cast HalfU (lon_u self) (lat_u self) (lon_u self) (lat_u self)
     (depth self) (time_counter self) (flow_U self)"
  by (simp add: write_u_def write_half_def)

lemma write_v_half:
  "write_v cast self = write_half cast HalfV (lon_v self) (lat_v self) (lon_u self) (lat_u self)
     (depth self) (time_counter self) (flow_V self)"
  by (simp add: write_v_def write_half_def)

lemma shape_A2_cases:
  "shape (A2 xss) = None \<or> (\<exists>m n. shape (A2 xss) = Some [m, n])"
  by (cases xss) simp_all

lemmas half_stage1 = write_half_def createDimension_def createVariable_def empty_dataset_def
  np_size_def row_loop_yx col_loop_yx slice_dim_same var_setattr_def array1_def transposed_def

lemmas half_stage2 = var_setitem_def index_dim_def slice_dim_def slice_extents_def

lemma fetch_same_A1_nil [simp]: "fetch (A1 []) [0] [0] = nd_get (A1 [])"
  using fetch_same_A1 [of "[]"] by simp

lemma write_half_inputs:
  assumes "write_half cast h (Some (Array1 xs)) (Some (Array1 ys)) (Some (Array1 axs))
             (Some (Array1 ays)) dp tc fl = Inr d"
  shows "\<exists>dps. dp = Some dps"
  using assms
  by (cases dp) (simp_all add: write_half_def createDimension_def empty_dataset_def np_size_def)

lemma write_half_or_nan:
  "write_half cast h lon lat alon alat dp tc fl =
   write_half cast h lon lat alon alat dp (Some (or_nan1 tc)) (Some (or_nan2 fl))"
proof -
  have a: "array1 tc = array1 (Some (or_nan1 tc))"
    by (cases tc) (simp_all add: array1_def or_nan1_def)
  have t: "transposed fl = transposed (Some (or_nan2 fl))"
    by (cases fl) (simp_all add: transposed_def or_nan2_def np_transpose_def rect_def)
  show ?thesis
    unfolding write_half_def a t by (rule refl)
qed

lemma write_half_Inr:
  assumes "write_half cast h (Some (Array1 xs)) (Some (Array1 ys)) (Some (Array1 axs))
             (Some (Array1 ays)) (Some dps) (Some tcs) (Some F) = Inr d"
  shows "\<exists>m n.
      shape (A2 (np_transpose F)) = Some [m, n]
    \<and> axs \<noteq> [] \<and> ays \<noteq> []
    \<and> conforms [m, n] [if ys = [] then m else length ys, if xs = [] then n else length xs]
    \<and> ds_dims d ''time_counter'' =
         Some \<lparr>dim_len = max 1 (length tcs), dim_unlimited = True\<rparr>
    \<and> ds_dims d (depth_name h) =
         Some \<lparr>dim_len = max 1 (length dps), dim_unlimited = (dps = [])\<rparr>
    \<and> ds_dims d ''y'' =
         Some \<lparr>dim_len = (if ys = [] then m else length ys), dim_unlimited = (ys = [])\<rparr>
    \<and> ds_dims d ''x'' =
         Some \<lparr>dim_len = (if xs = [] then n else length xs), dim_unlimited = (xs = [])\<rparr>
    \<and> dom (ds_vars d) = {vel_name h, ''time_counter'', depth_name h, ''nav_lat'', ''nav_lon''}
    \<and> ds_vars d ''nav_lon'' = Some
               \<lparr>var_dtype = Float32, var_dims = [''y'', ''x''],
                var_attrs = [''valid_min'' \<mapsto> axs ! 0, ''valid_max'' \<mapsto> last axs],
                var_cells = row_cells (cast Float32) xs (length ys) (\<lambda>_. NC_FILL)\<rparr>
    \<and> ds_vars d ''nav_lat'' = Some
               \<lparr>var_dtype = Float32, var_dims = [''y'', ''x''],
                var_attrs = [''valid_min'' \<mapsto> ays ! 0, ''valid_max'' \<mapsto> last ays],
                var_cells = col_cells (cast Float32) ys (length xs) (\<lambda>_. NC_FILL)\<rparr>
    \<and> ds_vars d (depth_name h) = Some
               \<lparr>var_dtype = Float32, var_dims = [depth_name h], var_attrs = Map.empty,
                var_cells = put_cells (cast Float32) [Every] (nd_get (A1 dps)) (\<lambda>_. NC_FILL)\<rparr>
    \<and> ds_vars d ''time_counter'' = Some
               \<lparr>var_dtype = Float64, var_dims = [''time_counter''], var_attrs = Map.empty,
                var_cells = put_cells (cast Float64) [Every] (nd_get (A1 tcs)) (\<lambda>_. NC_FILL)\<rparr>
    \<and> ds_vars d (vel_name h) = Some
               \<lparr>var_dtype = Float32, var_dims = [''time_counter'', depth_name h, ''y'', ''x''],
                var_attrs = Map.empty,
                var_cells = put_cells (cast Float32) [At 0, At 0, Every, Every]
                   (fetch (A2 (np_transpose F)) [m, n]
                      [if ys = [] then m else length ys, if xs = [] then n else length xs])
                   (\<lambda>_. NC_FILL)\<rparr>"
proof -
  have sh: "shape (A2 F) \<noteq> None"
    using assms
    by (cases h) (auto simp add: half_stage1 bnd_Inr_iff split: if_splits)
  from shape_A2_cases [of "np_transpose F"] have "\<exists>m n. shape (A2 (np_transpose F)) = Some [m, n]"
  proof
    assume "shape (A2 (np_transpose F)) = None"
    with assms sh show ?thesis
      apply (cases h)
      apply (simp_all add: half_stage1 split: if_splits)
      apply (simp_all add: half_stage2 split: if_splits)
      done
  qed
  then obtain m n where mn: "shape (A2 (np_transpose F)) = Some [m, n]" by blast
  show ?thesis
    using assms sh mn
    by (cases h;
        simp add: half_stage1 split: if_splits;
        simp add: half_stage2 split: if_splits;
        hypsubst_thin; simp add: max_def Suc_le_eq)
qed

subsection \<open>Reading a written file\<close>

lemma put_cells_00:
  "put_cells f [At 0, At 0, Every, Every] get c [0, 0, a, b] =
     (case get [a, b] of None \<Rightarrow> c [0, 0, a, b] | Some v \<Rightarrow> f v)"
  by (simp add: put_cells_def)

lemma read_put_00:
  assumes "shape (A2 xss) = Some [m, n]"
  shows "map (\<lambda>a. map (\<lambda>b. put_cells f [At 0, At 0, Every, Every] (nd_get (A2 xss)) c [0, 0, a, b]) [0..<n])
           [0..<m] = map (map f) xss"
proof -
  have len: "length xss = m" and row: "\<And>r. r \<in> set xss \<Longrightarrow> length r = n"
    using shape_A2_Some [OF assms] by auto
  show ?thesis
  proof (rule nth_equalityI)
    show "length (map (\<lambda>a. map (\<lambda>b. put_cells f [At 0, At 0, Every, Every] (nd_get (A2 xss)) c [0, 0, a, b])
            [0..<n]) [0..<m]) = length (map (map f) xss)"
      by (simp add: len)
  next
    fix a
    assume "a < length (map (\<lambda>a. map (\<lambda>b. put_cells f [At 0, At 0, Every, Every] (nd_get (A2 xss)) c
              [0, 0, a, b]) [0..<n]) [0..<m])"
    then have a: "a < m" by simp
    then have ra: "length (xss ! a) = n" using row len by simp
    have "map (\<lambda>b. put_cells f [At 0, At 0, Every, Every] (nd_get (A2 xss)) c [0, 0, a, b]) [0..<n]
          = map f (xss ! a)"
      by (rule nth_equalityI) (simp_all add: ra put_cells_def a len)
    then show "map (\<lambda>a. map (\<lambda>b. put_cells f [At 0, At 0, Every, Every] (nd_get (A2 xss)) c [0, 0, a, b])
            [0..<n]) [0..<m] ! a = map (map f) xss ! a"
      using a len by simp
  qed
qed

lemma map_upt_nth_if:
  "map (\<lambda>i. if i < length xs then f (xs ! i) else c) [0..<length xs] = map f xs"
  by (rule nth_equalityI) simp_all

text \<open>What a read of the velocity variable returns, whatever the shape of the field.\<close>

lemma half_read_velocity_any:
  assumes "write_half cast h (Some (Array1 xs)) (Some (Array1 ys)) (Some (Array1 axs))
             (Some (Array1 ays)) (Some dps) (Some tcs) (Some F) = Inr d"
  shows "\<exists>m n. shape (A2 (np_transpose F)) = Some [m, n]
      \<and> var_getitem d (vel_name h) [At 0, At 0, Every, Every] =
         Inr (A2 (map (\<lambda>a. map (\<lambda>b.
                (case fetch (A2 (np_transpose F)) [m, n]
                        [if ys = [] then m else length ys, if xs = [] then n else length xs] [a, b]
                 of None \<Rightarrow> NC_FILL | Some v \<Rightarrow> cast Float32 v))
              [0..<if xs = [] then n else length xs]) [0..<if ys = [] then m else length ys]))"
  using write_half_Inr [OF assms]
  by (elim exE conjE) (simp add: var_getitem_def put_cells_00)


lemma half_read_lat:
  assumes "write_half cast h (Some (Array1 xs)) (Some (Array1 ys)) (Some (Array1 axs))
             (Some (Array1 ays)) (Some dps) (Some tcs) (Some F) = Inr d"
    and "xs \<noteq> []" and "ys \<noteq> []"
  shows "var_getitem d ''nav_lat'' [Every, At 0] = Inr (A1 (map (cast Float32) ys))"
  using write_half_Inr [OF assms(1)] assms(2,3)
  by (elim exE conjE) (simp add: var_getitem_def col_cells_def map_upt_nth_if)

lemma half_read_lon:
  assumes "write_half cast h (Some (Array1 xs)) (Some (Array1 ys)) (Some (Array1 axs))
             (Some (Array1 ays)) (Some dps) (Some tcs) (Some F) = Inr d"
    and "xs \<noteq> []" and "ys \<noteq> []"
  shows "var_getitem d ''nav_lon'' [At 0, Every] = Inr (A1 (map (cast Float32) xs))"
  using write_half_Inr [OF assms(1)] assms(2,3)
  by (elim exE conjE) (simp add: var_getitem_def row_cells_def map_upt_nth_if)

subsection \<open>The whole of write, and \_\_init\_\_ after it\<close>

lemma write_Inr:
  "NEMOGrid_write cast local g w filename = Inr w' \<longleftrightarrow>
   (\<exists>du dv. write_u cast g = Inr du \<and> write_v cast g = Inr dv
      \<and> w' = \<lparr>files = (files w)(local filename @ ''_U.nc'' \<mapsto> du,
                                   local filename @ ''_V.nc'' \<mapsto> dv),
               stdout = stdout w @ [''Generating NEMO grid output: '' @ local filename]\<rparr>)"
  by (auto simp: NEMOGrid_write_def Let_def bnd_Inr_iff Dataset_close_def)

lemma write_success:
  assumes w: "NEMOGrid_write cast local g w filename = Inr w'"
    and c: "lon_u g = Some (Array1 lonu)" "lat_u g = Some (Array1 latu)"
      "lon_v g = Some (Array1 lonv)" "lat_v g = Some (Array1 latv)"
  obtains du dv dps tcs Um Vm where
    "depth g = Some dps" "tcs = or_nan1 (time_counter g)"
    "Um = or_nan2 (flow_U g)" "Vm = or_nan2 (flow_V g)"
    "write_half cast HalfU (Some (Array1 lonu)) (Some (Array1 latu)) (Some (Array1 lonu))
       (Some (Array1 latu)) (Some dps) (Some tcs) (Some Um) = Inr du"
    "write_half cast HalfV (Some (Array1 lonv)) (Some (Array1 latv)) (Some (Array1 lonu))
       (Some (Array1 latu)) (Some dps) (Some tcs) (Some Vm) = Inr dv"
    "files w' = (files w)(local filename @ ''_U.nc'' \<mapsto> du, local filename @ ''_V.nc'' \<mapsto> dv)"
proof -
  from w obtain du dv where
    u: "write_u cast g = Inr du" and v: "write_v cast g = Inr dv"
    and w': "w' = \<lparr>files = (files w)(local filename @ ''_U.nc'' \<mapsto> du,
                                   local filename @ ''_V.nc'' \<mapsto> dv),
               stdout = stdout w @ [''Generating NEMO grid output: '' @ local filename]\<rparr>"
    unfolding write_Inr by blast
  from u have hu: "write_half cast HalfU (Some (Array1 lonu)) (Some (Array1 latu))
      (Some (Array1 lonu)) (Some (Array1 latu)) (depth g) (Some (or_nan1 (time_counter g)))
      (Some (or_nan2 (flow_U g))) = Inr du"
    unfolding write_u_half c by (subst (asm) write_half_or_nan)
  from v have hv: "write_half cast HalfV (Some (Array1 lonv)) (Some (Array1 latv))
      (Some (Array1 lonu)) (Some (Array1 latu)) (depth g) (Some (or_nan1 (time_counter g)))
      (Some (or_nan2 (flow_V g))) = Inr dv"
    unfolding write_v_half c by (subst (asm) write_half_or_nan)
  from write_half_inputs [OF hu] obtain dps where i: "depth g = Some dps"
    by blast
  show thesis
    using that [OF i refl refl refl hu [unfolded i] hv [unfolded i]] w' by simp
qed




text \<open>\<open>__init__\<close> on files with the variables it reads: all that is left is the two fits.\<close>

lemma init_reads:
  assumes "filename \<noteq> []"
    and "files w (filename @ ''_U.nc'') = Some du" and "files w (filename @ ''_V.nc'') = Some dv"
    and "ds_vars du ''nav_lon'' \<noteq> None" and "ds_vars du ''nav_lat'' \<noteq> None"
    and "ds_vars dv ''nav_lon'' \<noteq> None" and "ds_vars dv ''nav_lat'' \<noteq> None"
    and "var_getitem du ''vozocrtx'' [At 0, At 0, Every, Every] = Inr (A2 U0)"
    and "var_getitem dv ''vomecrty'' [At 0, At 0, Every, Every] = Inr (A2 V0)"
    and "var_getitem du ''nav_lat'' [Every, At 0] = Inr (A1 latu0)"
    and "var_getitem du ''nav_lon'' [At 0, Every] = Inr (A1 lonu0)"
    and "var_getitem dv ''nav_lat'' [Every, At 0] = Inr (A1 latv0)"
    and "var_getitem dv ''nav_lon'' [At 0, Every] = Inr (A1 lonv0)"
  shows "NEMOGrid_init rbs w (Some filename) degree_opt =
     bnd (fit rbs latu0 lonu0 (mask_assign U0 (np_isnan U0) (Fin 0))
            (case degree_opt of None \<Rightarrow> 3 | Some k \<Rightarrow> k)
            (case degree_opt of None \<Rightarrow> 3 | Some k \<Rightarrow> k)) (\<lambda>su.
     bnd (fit rbs latv0 lonv0 (mask_assign V0 (np_isnan V0) (Fin 0))
            (case degree_opt of None \<Rightarrow> 3 | Some k \<Rightarrow> k)
            (case degree_opt of None \<Rightarrow> 3 | Some k \<Rightarrow> k)) (\<lambda>sv.
     Inr (new_grid\<lparr>dset_u := Some du, dset_v := Some dv,
            lon_u := Some (Handle du ''nav_lon''), lat_u := Some (Handle du ''nav_lat''),
            lon_v := Some (Handle dv ''nav_lon''), lat_v := Some (Handle dv ''nav_lat''),
            flow_U := Some (mask_assign U0 (np_isnan U0) (Fin 0)),
            flow_V := Some (mask_assign V0 (np_isnan V0) (Fin 0)),
            interp_u := Some su, interp_v := Some sv\<rparr>)))"
  using assms
  by (auto simp: NEMOGrid_init_def Let_def Dataset_r_def Dataset_getitem_def as_A1_def as_A2_def
      split: option.splits)

lemma init_after_fit:
  assumes "filename \<noteq> []"
    and "files w (filename @ ''_U.nc'') = Some du" and "files w (filename @ ''_V.nc'') = Some dv"
    and "ds_vars du ''nav_lon'' \<noteq> None" and "ds_vars du ''nav_lat'' \<noteq> None"
    and "ds_vars dv ''nav_lon'' \<noteq> None" and "ds_vars dv ''nav_lat'' \<noteq> None"
    and "var_getitem du ''vozocrtx'' [At 0, At 0, Every, Every] = Inr (A2 U0)"
    and "var_getitem dv ''vomecrty'' [At 0, At 0, Every, Every] = Inr (A2 V0)"
    and "var_getitem du ''nav_lat'' [Every, At 0] = Inr (A1 latu0)"
    and "var_getitem du ''nav_lon'' [At 0, Every] = Inr (A1 lonu0)"
    and "var_getitem dv ''nav_lat'' [Every, At 0] = Inr (A1 latv0)"
    and "var_getitem dv ''nav_lon'' [At 0, Every] = Inr (A1 lonv0)"
  shows "(\<exists>g. NEMOGrid_init rbs w (Some filename) degree_opt = Inr g)
       \<or> NEMOGrid_init rbs w (Some filename) degree_opt = Inl SplineError"
  unfolding init_reads [OF assms]
  by (auto simp: fit_def split: option.splits)

lemma write_then_init:
  assumes "NEMOGrid_write cast local g w filename = Inr w'"
    and "lon_u g = Some (Array1 lonu)" and "lat_u g = Some (Array1 latu)"
    and "lon_v g = Some (Array1 lonv)" and "lat_v g = Some (Array1 latv)"
    and p: "local filename \<noteq> []" and nv: "lonv \<noteq> []" "latv \<noteq> []"
  shows "(\<exists>g'. NEMOGrid_init rbs w' (Some (local filename)) degree_opt = Inr g')
       \<or> NEMOGrid_init rbs w' (Some (local filename)) degree_opt = Inl SplineError"
proof -
  from assms(1-5) obtain du dv dps tcs Um Vm where
    hu: "write_half cast HalfU (Some (Array1 lonu)) (Some (Array1 latu)) (Some (Array1 lonu))
       (Some (Array1 latu)) (Some dps) (Some tcs) (Some Um) = Inr du"
    and hv: "write_half cast HalfV (Some (Array1 lonv)) (Some (Array1 latv)) (Some (Array1 lonu))
       (Some (Array1 latu)) (Some dps) (Some tcs) (Some Vm) = Inr dv"
    and f: "files w' = (files w)(local filename @ ''_U.nc'' \<mapsto> du, local filename @ ''_V.nc'' \<mapsto> dv)"
    by (rule write_success)
  from write_half_Inr [OF hu] have
    "lonu \<noteq> [] \<and> latu \<noteq> []
     \<and> dom (ds_vars du) = {vel_name HalfU, ''time_counter'', depth_name HalfU, ''nav_lat'', ''nav_lon''}"
    by (elim exE conjE) (intro conjI; assumption)
  then have ne: "lonu \<noteq> []" "latu \<noteq> []"
    and du: "''nav_lon'' \<in> dom (ds_vars du)" "''nav_lat'' \<in> dom (ds_vars du)"
    by simp_all
  from write_half_Inr [OF hv] have
    "dom (ds_vars dv) = {vel_name HalfV, ''time_counter'', depth_name HalfV, ''nav_lat'', ''nav_lon''}"
    by (elim exE conjE)
  then have dv: "''nav_lon'' \<in> dom (ds_vars dv)" "''nav_lat'' \<in> dom (ds_vars dv)"
    by simp_all
  have fu: "files w' (local filename @ ''_U.nc'') = Some du"
    and fv: "files w' (local filename @ ''_V.nc'') = Some dv"
    by (simp_all add: f)
  from half_read_velocity_any [OF hu] obtain U0 where
    ru: "var_getitem du ''vozocrtx'' [At 0, At 0, Every, Every] = Inr (A2 U0)"
    by (elim exE conjE) simp
  from half_read_velocity_any [OF hv] obtain V0 where
    rv: "var_getitem dv ''vomecrty'' [At 0, At 0, Every, Every] = Inr (A2 V0)"
    by (elim exE conjE) simp
  show ?thesis
  proof (rule init_after_fit [OF p fu fv _ _ _ _ ru rv])
    show "ds_vars du ''nav_lon'' \<noteq> None" "ds_vars du ''nav_lat'' \<noteq> None"
      using du by (auto simp: dom_def)
    show "ds_vars dv ''nav_lon'' \<noteq> None" "ds_vars dv ''nav_lat'' \<noteq> None"
      using dv by (auto simp: dom_def)
    show "var_getitem du ''nav_lat'' [Every, At 0] = Inr (A1 (map (cast Float32) latu))"
      by (rule half_read_lat [OF hu ne])
    show "var_getitem du ''nav_lon'' [At 0, Every] = Inr (A1 (map (cast Float32) lonu))"
      by (rule half_read_lon [OF hu ne])
    show "var_getitem dv ''nav_lat'' [Every, At 0] = Inr (A1 (map (cast Float32) latv))"
      by (rule half_read_lat [OF hv nv])
    show "var_getitem dv ''nav_lon'' [At 0, Every] = Inr (A1 (map (cast Float32) lonv))"
      by (rule half_read_lon [OF hv nv])
  qed
qed

text \<open>What \<open>__init__\<close> has read when it returns, the two files being given.\<close>

lemma init_fields:
  assumes p: "filename \<noteq> []"
    and fu: "files w (filename @ ''_U.nc'') = Some du"
    and fv: "files w (filename @ ''_V.nc'') = Some dv"
    and g: "NEMOGrid_init rbs w (Some filename) degree_opt = Inr g'"
  shows "dset_u g' = Some du \<and> dset_v g' = Some dv
       \<and> lon_u g' = Some (Handle du ''nav_lon'') \<and> lat_u g' = Some (Handle du ''nav_lat'')
       \<and> lon_v g' = Some (Handle dv ''nav_lon'') \<and> lat_v g' = Some (Handle dv ''nav_lat'')
       \<and> (\<exists>U0 V0. var_getitem du ''vozocrtx'' [At 0, At 0, Every, Every] = Inr (A2 U0)
             \<and> var_getitem dv ''vomecrty'' [At 0, At 0, Every, Every] = Inr (A2 V0)
             \<and> flow_U g' = Some (map (map (\<lambda>a. if isnan a then Fin 0 else a)) U0)
             \<and> flow_V g' = Some (map (map (\<lambda>a. if isnan a then Fin 0 else a)) V0))"
proof -
  from g obtain du' dv' U0 V0 su sv where
    f: "files w (filename @ ''_U.nc'') = Some du'" "files w (filename @ ''_V.nc'') = Some dv'"
    and r: "var_getitem du' ''vozocrtx'' [At 0, At 0, Every, Every] = Inr (A2 U0)"
      "var_getitem dv' ''vomecrty'' [At 0, At 0, Every, Every] = Inr (A2 V0)"
    and g': "g' = new_grid\<lparr>dset_u := Some du', dset_v := Some dv',
                       lon_u := Some (Handle du' ''nav_lon''), lat_u := Some (Handle du' ''nav_lat''),
                       lon_v := Some (Handle dv' ''nav_lon''), lat_v := Some (Handle dv' ''nav_lat''),
                       flow_U := Some (mask_assign U0 (np_isnan U0) (Fin 0)),
                       flow_V := Some (mask_assign V0 (np_isnan V0) (Fin 0)),
                       interp_u := Some su, interp_v := Some sv\<rparr>"
    unfolding init_Some [OF p] by blast
  from f fu fv have e: "du' = du" "dv' = dv" by simp_all
  have a: "dset_u g' = Some du" "dset_v g' = Some dv"
    "lon_u g' = Some (Handle du ''nav_lon'')" "lat_u g' = Some (Handle du ''nav_lat'')"
    "lon_v g' = Some (Handle dv ''nav_lon'')" "lat_v g' = Some (Handle dv ''nav_lat'')"
    by (simp_all add: g' e)
  have b: "flow_U g' = Some (map (map (\<lambda>a. if isnan a then Fin 0 else a)) U0)"
    "flow_V g' = Some (map (map (\<lambda>a. if isnan a then Fin 0 else a)) V0)"
    by (simp_all add: g' mask_assign_isnan)
  from r b have "\<exists>U0 V0. var_getitem du ''vozocrtx'' [At 0, At 0, Every, Every] = Inr (A2 U0)
             \<and> var_getitem dv ''vomecrty'' [At 0, At 0, Every, Every] = Inr (A2 V0)
             \<and> flow_U g' = Some (map (map (\<lambda>a. if isnan a then Fin 0 else a)) U0)
             \<and> flow_V g' = Some (map (map (\<lambda>a. if isnan a then Fin 0 else a)) V0)"
    unfolding e by blast
  with a show ?thesis by (intro conjI)
qed

subsection \<open>write followed by \_\_init\_\_\<close>

lemma landed_same:
  assumes "shape (A2 T) = Some [sy, sx]"
  shows "landed f T sy sx = map (map f) T"
  using read_put_00 [OF assms, of f "\<lambda>_. NC_FILL"]
  by (simp add: landed_def assms fetch_same_A2 [OF assms] put_cells_00)

lemma half_read_velocity_landed:
  assumes "write_half cast h (Some (Array1 xs)) (Some (Array1 ys)) (Some (Array1 axs))
             (Some (Array1 ays)) (Some dps) (Some tcs) (Some F) = Inr d"
    and "xs \<noteq> []" and "ys \<noteq> []"
  shows "var_getitem d (vel_name h) [At 0, At 0, Every, Every] =
         Inr (A2 (landed (cast Float32) (np_transpose F) (length ys) (length xs)))"
  using half_read_velocity_any [OF assms(1)] assms(2,3)
  by (elim exE conjE) (simp add: landed_def)

lemma write_then_init_eq:
  assumes "NEMOGrid_write cast local g w filename = Inr w'"
    and "lon_u g = Some (Array1 lonu)" and "lat_u g = Some (Array1 latu)"
    and "lon_v g = Some (Array1 lonv)" and "lat_v g = Some (Array1 latv)"
    and "flow_U g = Some Um" and "flow_V g = Some Vm"
    and p: "local filename \<noteq> []" and nv: "lonv \<noteq> []" "latv \<noteq> []"
  shows "\<exists>du dv.
      files w' (local filename @ ''_U.nc'') = Some du
    \<and> files w' (local filename @ ''_V.nc'') = Some dv
    \<and> NEMOGrid_init rbs w' (Some (local filename)) degree_opt =
        bnd (fit rbs (map (cast Float32) latu) (map (cast Float32) lonu)
               (map (map (\<lambda>a. if isnan a then Fin 0 else a))
                  (landed (cast Float32) (np_transpose Um) (length latu) (length lonu)))
               (case degree_opt of None \<Rightarrow> 3 | Some k \<Rightarrow> k)
               (case degree_opt of None \<Rightarrow> 3 | Some k \<Rightarrow> k)) (\<lambda>su.
        bnd (fit rbs (map (cast Float32) latv) (map (cast Float32) lonv)
               (map (map (\<lambda>a. if isnan a then Fin 0 else a))
                  (landed (cast Float32) (np_transpose Vm) (length latv) (length lonv)))
               (case degree_opt of None \<Rightarrow> 3 | Some k \<Rightarrow> k)
               (case degree_opt of None \<Rightarrow> 3 | Some k \<Rightarrow> k)) (\<lambda>sv.
        Inr (new_grid\<lparr>dset_u := Some du, dset_v := Some dv,
               lon_u := Some (Handle du ''nav_lon''), lat_u := Some (Handle du ''nav_lat''),
               lon_v := Some (Handle dv ''nav_lon''), lat_v := Some (Handle dv ''nav_lat''),
               flow_U := Some (map (map (\<lambda>a. if isnan a then Fin 0 else a))
                  (landed (cast Float32) (np_transpose Um) (length latu) (length lonu))),
               flow_V := Some (map (map (\<lambda>a. if isnan a then Fin 0 else a))
                  (landed (cast Float32) (np_transpose Vm) (length latv) (length lonv))),
               interp_u := Some su, interp_v := Some sv\<rparr>)))"
proof -
  from assms(1-5) obtain du dv dps tcs Um' Vm' where
    fl: "Um' = or_nan2 (flow_U g)" "Vm' = or_nan2 (flow_V g)"
    and hu': "write_half cast HalfU (Some (Array1 lonu)) (Some (Array1 latu)) (Some (Array1 lonu))
       (Some (Array1 latu)) (Some dps) (Some tcs) (Some Um') = Inr du"
    and hv': "write_half cast HalfV (Some (Array1 lonv)) (Some (Array1 latv)) (Some (Array1 lonu))
       (Some (Array1 latu)) (Some dps) (Some tcs) (Some Vm') = Inr dv"
    and f: "files w' = (files w)(local filename @ ''_U.nc'' \<mapsto> du, local filename @ ''_V.nc'' \<mapsto> dv)"
    by (rule write_success)
  from fl assms(6,7) have eq: "Um' = Um" "Vm' = Vm" by (simp_all add: or_nan2_def)
  note hu = hu' [unfolded eq] and hv = hv' [unfolded eq]
  from write_half_Inr [OF hu] have
    "lonu \<noteq> [] \<and> latu \<noteq> []
     \<and> dom (ds_vars du) = {vel_name HalfU, ''time_counter'', depth_name HalfU, ''nav_lat'', ''nav_lon''}"
    by (elim exE conjE) (intro conjI; assumption)
  then have ne: "lonu \<noteq> []" "latu \<noteq> []"
    and du: "ds_vars du ''nav_lon'' \<noteq> None" "ds_vars du ''nav_lat'' \<noteq> None"
    by (auto simp: dom_def set_eq_iff)
  from write_half_Inr [OF hv] have
    "dom (ds_vars dv) = {vel_name HalfV, ''time_counter'', depth_name HalfV, ''nav_lat'', ''nav_lon''}"
    by (elim exE conjE)
  then have dv: "ds_vars dv ''nav_lon'' \<noteq> None" "ds_vars dv ''nav_lat'' \<noteq> None"
    by (auto simp: dom_def set_eq_iff)
  have fu: "files w' (local filename @ ''_U.nc'') = Some du"
    and fv: "files w' (local filename @ ''_V.nc'') = Some dv"
    by (simp_all add: f)
  have ru: "var_getitem du ''vozocrtx'' [At 0, At 0, Every, Every] =
      Inr (A2 (landed (cast Float32) (np_transpose Um) (length latu) (length lonu)))"
    using half_read_velocity_landed [OF hu ne] by simp
  have rv: "var_getitem dv ''vomecrty'' [At 0, At 0, Every, Every] =
      Inr (A2 (landed (cast Float32) (np_transpose Vm) (length latv) (length lonv)))"
    using half_read_velocity_landed [OF hv nv] by simp
  note i = init_reads [OF p fu fv du dv ru rv half_read_lat [OF hu ne] half_read_lon [OF hu ne]
      half_read_lat [OF hv nv] half_read_lon [OF hv nv], of rbs degree_opt,
      unfolded mask_assign_isnan]
  show ?thesis
    by (rule exI [of _ du], rule exI [of _ dv], intro conjI) (fact fu fv i)+
qed

subsection \<open>Masked entries in the reads of \_\_init\_\_\<close>

lemma masked_value_empty [simp]: "masked_value f Map.empty = (\<lambda>a. a = NC_FILL)"
  by (rule ext) (simp add: masked_value_def)

lemma half_masked:
  assumes "write_half cast h (Some (Array1 xs)) (Some (Array1 ys)) (Some (Array1 axs))
             (Some (Array1 ays)) (Some dps) (Some tcs) (Some F) = Inr d"
    and "xs \<noteq> []" and "ys \<noteq> []"
  shows "var_masked cast d (vel_name h) [At 0, At 0, Every, Every] =
           list_ex (list_ex (\<lambda>a. a = NC_FILL))
             (landed (cast Float32) (np_transpose F) (length ys) (length xs))"
    and "var_masked cast d ''nav_lat'' [Every, At 0] =
           list_ex (masked_value (cast Float32) [''valid_min'' \<mapsto> ays ! 0, ''valid_max'' \<mapsto> last ays])
             (map (cast Float32) ys)"
    and "var_masked cast d ''nav_lon'' [At 0, Every] =
           list_ex (masked_value (cast Float32) [''valid_min'' \<mapsto> axs ! 0, ''valid_max'' \<mapsto> last axs])
             (map (cast Float32) xs)"
proof -
  note rv = half_read_velocity_landed [OF assms]
  note rla = half_read_lat [OF assms]
  note rlo = half_read_lon [OF assms]
  show "var_masked cast d (vel_name h) [At 0, At 0, Every, Every] =
           list_ex (list_ex (\<lambda>a. a = NC_FILL))
             (landed (cast Float32) (np_transpose F) (length ys) (length xs))"
    using write_half_Inr [OF assms(1)]
    by (elim exE conjE) (simp add: var_masked_def rv)
  show "var_masked cast d ''nav_lat'' [Every, At 0] =
           list_ex (masked_value (cast Float32) [''valid_min'' \<mapsto> ays ! 0, ''valid_max'' \<mapsto> last ays])
             (map (cast Float32) ys)"
    using write_half_Inr [OF assms(1)]
    by (elim exE conjE) (simp add: var_masked_def rla)
  show "var_masked cast d ''nav_lon'' [At 0, Every] =
           list_ex (masked_value (cast Float32) [''valid_min'' \<mapsto> axs ! 0, ''valid_max'' \<mapsto> last axs])
             (map (cast Float32) xs)"
    using write_half_Inr [OF assms(1)]
    by (elim exE conjE) (simp add: var_masked_def rlo)
qed

lemma write_reads_masked:
  assumes "NEMOGrid_write cast local g w filename = Inr w'"
    and "lon_u g = Some (Array1 lonu)" and "lat_u g = Some (Array1 latu)"
    and "lon_v g = Some (Array1 lonv)" and "lat_v g = Some (Array1 latv)"
    and "flow_U g = Some Um" and "flow_V g = Some Vm"
    and nv: "lonv \<noteq> []" "latv \<noteq> []"
    and fu: "files w' (local filename @ ''_U.nc'') = Some du"
    and fv: "files w' (local filename @ ''_V.nc'') = Some dv"
  shows "reads_masked cast du dv =
     (list_ex (list_ex (\<lambda>a. a = NC_FILL))
        (landed (cast Float32) (np_transpose Um) (length latu) (length lonu))
    \<or> list_ex (list_ex (\<lambda>a. a = NC_FILL))
        (landed (cast Float32) (np_transpose Vm) (length latv) (length lonv))
    \<or> list_ex (masked_value (cast Float32) [''valid_min'' \<mapsto> latu ! 0, ''valid_max'' \<mapsto> last latu])
        (map (cast Float32) latu)
    \<or> list_ex (masked_value (cast Float32) [''valid_min'' \<mapsto> lonu ! 0, ''valid_max'' \<mapsto> last lonu])
        (map (cast Float32) lonu)
    \<or> list_ex (masked_value (cast Float32) [''valid_min'' \<mapsto> latu ! 0, ''valid_max'' \<mapsto> last latu])
        (map (cast Float32) latv)
    \<or> list_ex (masked_value (cast Float32) [''valid_min'' \<mapsto> lonu ! 0, ''valid_max'' \<mapsto> last lonu])
        (map (cast Float32) lonv))"
proof -
  from assms(1-5) obtain du' dv' dps tcs Um' Vm' where
    fl: "Um' = or_nan2 (flow_U g)" "Vm' = or_nan2 (flow_V g)"
    and hu': "write_half cast HalfU (Some (Array1 lonu)) (Some (Array1 latu)) (Some (Array1 lonu))
       (Some (Array1 latu)) (Some dps) (Some tcs) (Some Um') = Inr du'"
    and hv': "write_half cast HalfV (Some (Array1 lonv)) (Some (Array1 latv)) (Some (Array1 lonu))
       (Some (Array1 latu)) (Some dps) (Some tcs) (Some Vm') = Inr dv'"
    and f: "files w' = (files w)(local filename @ ''_U.nc'' \<mapsto> du', local filename @ ''_V.nc'' \<mapsto> dv')"
    by (rule write_success)
  from fl assms(6,7) have eq: "Um' = Um" "Vm' = Vm" by (simp_all add: or_nan2_def)
  from f fu fv have ed: "du' = du" "dv' = dv" by (simp_all split: if_splits)
  note hu = hu' [unfolded eq ed] and hv = hv' [unfolded eq ed]
  from write_half_Inr [OF hu] have "lonu \<noteq> [] \<and> latu \<noteq> []"
    by (elim exE conjE) (intro conjI; assumption)
  then have ne: "lonu \<noteq> []" "latu \<noteq> []" by simp_all
  note mu = half_masked [OF hu ne, simplified]
  note mv = half_masked [OF hv nv, simplified]
  show ?thesis
    unfolding reads_masked_def mu mv by (rule refl)
qed

subsection \<open>The example grids\<close>

lemma ex_grid_in_coords:
  "lon_u ex_grid_in = Some (Array1 [Fin 10, Fin 20, Fin 30])"
  "lat_u ex_grid_in = Some (Array1 [Fin (- 40), Fin (- 30)])"
  "lon_v ex_grid_in = Some (Array1 [Fin 12, Fin 20, Fin 28])"
  "lat_v ex_grid_in = Some (Array1 [Fin (- 38), Fin (- 32)])"
  by (simp_all add: ex_grid_in_def ex_grid_def new_grid_def)

lemma ex_grid_coords:
  "lon_u ex_grid = Some (Array1 [Fin 10, Fin 20, Fin 30])"
  "lat_u ex_grid = Some (Array1 [Fin (- 40), Fin (- 30)])"
  "lon_v ex_grid = Some (Array1 [Fin 15, Fin 25, Fin 35])"
  "lat_v ex_grid = Some (Array1 [Fin (- 45), Fin (- 35)])"
  by (simp_all add: ex_grid_def new_grid_def)

lemma ex_grid_flow:
  "flow_U ex_grid = Some [[Fin 1, Fin 2], [Fin 3, Fin 4], [Fin 5, Fin 6]]"
  "flow_V ex_grid = Some [[Fin 0, Fin 7], [Fin 8, Fin 9], [Fin 10, Fin 11]]"
  by (simp_all add: ex_grid_def new_grid_def)

lemma ex_grid_in_flow:
  "flow_U ex_grid_in = Some [[Fin 1, Fin 2], [Fin 3, Fin 4], [Fin 5, Fin 6]]"
  "flow_V ex_grid_in = Some [[Fin 0, Fin 7], [Fin 8, Fin 9], [Fin 10, Fin 11]]"
  by (simp_all add: ex_grid_in_def ex_grid_def new_grid_def)





lemmas ex_write1 = createDimension_def createVariable_def empty_dataset_def
  np_size_def row_loop_yx col_loop_yx slice_dim_same var_setattr_def array1_def transposed_def
  rect_def np_transpose_def new_grid_def

lemmas ex_write2 = var_setitem_def index_dim_def slice_dim_def slice_extents_def rect_def
  conforms_def numel_def

lemma ex_write: "\<exists>w'. NEMOGrid_write ex_cast ex_local ex_grid ex_disk ''nemo'' = Inr w'"
proof -
  have u: "\<exists>d. write_u ex_cast ex_grid = Inr d"
    by (simp add: write_u_def ex_grid_def ex_write1) (simp add: ex_write2)
  have v: "\<exists>d. write_v ex_cast ex_grid = Inr d"
    by (simp add: write_v_def ex_grid_def ex_write1) (simp add: ex_write2)
  from u v show ?thesis by (auto simp: write_Inr)
qed

lemma ex_write_in: "\<exists>w'. NEMOGrid_write ex_cast ex_local ex_grid_in ex_disk ''nemo'' = Inr w'"
proof -
  have u: "\<exists>d. write_u ex_cast ex_grid_in = Inr d"
    by (simp add: write_u_def ex_grid_in_def ex_grid_def ex_write1) (simp add: ex_write2)
  have v: "\<exists>d. write_v ex_cast ex_grid_in = Inr d"
    by (simp add: write_v_def ex_grid_in_def ex_grid_def ex_write1) (simp add: ex_write2)
  from u v show ?thesis by (auto simp: write_Inr)
qed



lemma ex_local_nemo: "ex_local ''nemo'' = ''/work/nemo''"
  by (simp add: ex_local_def)

lemma ex_landed:
  "landed f (np_transpose [[a1, a2], [a3, a4], [a5, a6]]) (Suc (Suc 0)) (Suc (Suc (Suc 0))) =
     [[f a1, f a3, f a5], [f a2, f a4, f a6]]"
proof -
  have "shape (A2 (np_transpose [[a1, a2], [a3, a4], [a5, a6]])) = Some [2, 3]"
    by (simp add: np_transpose_def rect_def)
  from landed_same [OF this, of f] show ?thesis
    by (simp add: np_transpose_def numeral_2_eq_2 numeral_3_eq_3)
qed

lemma ex_landed_yx:
  "landed f (np_transpose [[a1, a2, a3], [a4, a5, a6]]) (Suc (Suc 0)) (Suc (Suc (Suc 0))) =
     [[f a1, f a4, f a2], [f a5, f a3, f a6]]"
  by (simp add: landed_def np_transpose_def rect_def fetch_def in_shape_def numel_def upt_rec)

lemmas ex_eval = ex_landed ex_landed_yx fit_def ex_spline_def ex_cast_def ex_round32_def isnan_def
  ex_local_nemo

lemmas ex_mask = ex_landed ex_landed_yx masked_value_def NC_FILL_def ex_cast_def ex_round32_def

subsection \<open>The files write produces\<close>

text \<open>
  Claim C6. A call of \<open>write\<close> that returns has produced two files, \<open>filename_U.nc\<close>
  and \<open>filename_V.nc\<close>, and changed no other file. The U file holds exactly the
  variables \<open>nav_lon\<close>, \<open>nav_lat\<close>, \<open>depthu\<close>, \<open>time_counter\<close> and \<open>vozocrtx\<close>, the V
  file \<open>nav_lon\<close>, \<open>nav_lat\<close>, \<open>depthv\<close>, \<open>time_counter\<close> and \<open>vomecrty\<close>; the
  velocity variables have the dimensions (time\_counter, depth, y, x). \<open>__init__\<close> on the
  same name reads these two files back. It finds both files and every variable it reads,
  so it returns a grid unless the spline library raises. And a grid it returns holds the
  datasets of the U file and of the V file, as \<open>lon_u\<close> and \<open>lat_u\<close> the variables
  \<open>nav_lon\<close> and \<open>nav_lat\<close> of the U file, as \<open>lon_v\<close> and \<open>lat_v\<close> those of the V
  file, and as U and V the arrays \<open>vozocrtx[0, 0, :, :]\<close> of the U file and
  \<open>vomecrty[0, 0, :, :]\<close> of the V file with every NaN replaced by 0. The grid that is
  written has one-dimensional arrays as coordinates.
\<close>

theorem write_nemo_layout:
  assumes "NEMOGrid_write cast local g w filename = Inr w'"
    and "lon_u g = Some (Array1 lonu)" and "lat_u g = Some (Array1 latu)"
    and "lon_v g = Some (Array1 lonv)" and "lat_v g = Some (Array1 latv)"
  shows "\<exists>du dv vu vv.
      files w' (local filename @ ''_U.nc'') = Some du
    \<and> files w' (local filename @ ''_V.nc'') = Some dv
    \<and> (\<forall>q. q \<noteq> local filename @ ''_U.nc'' \<longrightarrow> q \<noteq> local filename @ ''_V.nc''
           \<longrightarrow> files w' q = files w q)
    \<and> dom (ds_vars du) = {''nav_lon'', ''nav_lat'', ''depthu'', ''time_counter'', ''vozocrtx''}
    \<and> dom (ds_vars dv) = {''nav_lon'', ''nav_lat'', ''depthv'', ''time_counter'', ''vomecrty''}
    \<and> ds_vars du ''vozocrtx'' = Some vu
    \<and> var_dims vu = [''time_counter'', ''depthu'', ''y'', ''x'']
    \<and> ds_vars dv ''vomecrty'' = Some vv
    \<and> var_dims vv = [''time_counter'', ''depthv'', ''y'', ''x'']
    \<and> (local filename \<noteq> [] \<and> lonv \<noteq> [] \<and> latv \<noteq> [] \<longrightarrow>
         (\<exists>g'. NEMOGrid_init rbs w' (Some (local filename)) degree_opt = Inr g')
       \<or> NEMOGrid_init rbs w' (Some (local filename)) degree_opt = Inl SplineError)
    \<and> (\<forall>g'. local filename \<noteq> []
           \<and> NEMOGrid_init rbs w' (Some (local filename)) degree_opt = Inr g' \<longrightarrow>
           dset_u g' = Some du \<and> dset_v g' = Some dv
         \<and> lon_u g' = Some (Handle du ''nav_lon'') \<and> lat_u g' = Some (Handle du ''nav_lat'')
         \<and> lon_v g' = Some (Handle dv ''nav_lon'') \<and> lat_v g' = Some (Handle dv ''nav_lat'')
         \<and> (\<exists>U0 V0. var_getitem du ''vozocrtx'' [At 0, At 0, Every, Every] = Inr (A2 U0)
               \<and> var_getitem dv ''vomecrty'' [At 0, At 0, Every, Every] = Inr (A2 V0)
               \<and> flow_U g' = Some (map (map (\<lambda>a. if isnan a then Fin 0 else a)) U0)
               \<and> flow_V g' = Some (map (map (\<lambda>a. if isnan a then Fin 0 else a)) V0)))"
proof -
  from assms obtain du dv dps tcs Um Vm where
    hu: "write_half cast HalfU (Some (Array1 lonu)) (Some (Array1 latu)) (Some (Array1 lonu))
       (Some (Array1 latu)) (Some dps) (Some tcs) (Some Um) = Inr du"
    and hv: "write_half cast HalfV (Some (Array1 lonv)) (Some (Array1 latv)) (Some (Array1 lonu))
       (Some (Array1 latu)) (Some dps) (Some tcs) (Some Vm) = Inr dv"
    and f: "files w' = (files w)(local filename @ ''_U.nc'' \<mapsto> du, local filename @ ''_V.nc'' \<mapsto> dv)"
    by (rule write_success)
  from write_half_Inr [OF hu] obtain vu where
    "dom (ds_vars du) = {vel_name HalfU, ''time_counter'', depth_name HalfU, ''nav_lat'', ''nav_lon''}"
    and "ds_vars du (vel_name HalfU) = Some vu"
    and "var_dims vu = [''time_counter'', depth_name HalfU, ''y'', ''x'']"
    by (elim exE conjE) simp
  then have du: "dom (ds_vars du) = {''nav_lon'', ''nav_lat'', ''depthu'', ''time_counter'', ''vozocrtx''}"
    and vu: "ds_vars du ''vozocrtx'' = Some vu"
    and dvu: "var_dims vu = [''time_counter'', ''depthu'', ''y'', ''x'']"
    by (simp_all add: insert_commute)
  from write_half_Inr [OF hv] obtain vv where
    "dom (ds_vars dv) = {vel_name HalfV, ''time_counter'', depth_name HalfV, ''nav_lat'', ''nav_lon''}"
    and "ds_vars dv (vel_name HalfV) = Some vv"
    and "var_dims vv = [''time_counter'', depth_name HalfV, ''y'', ''x'']"
    by (elim exE conjE) simp
  then have dv: "dom (ds_vars dv) = {''nav_lon'', ''nav_lat'', ''depthv'', ''time_counter'', ''vomecrty''}"
    and vv: "ds_vars dv ''vomecrty'' = Some vv"
    and dvv: "var_dims vv = [''time_counter'', ''depthv'', ''y'', ''x'']"
    by (simp_all add: insert_commute)
  have fu: "files w' (local filename @ ''_U.nc'') = Some du"
    and fv: "files w' (local filename @ ''_V.nc'') = Some dv"
    and fo: "\<forall>q. q \<noteq> local filename @ ''_U.nc'' \<longrightarrow> q \<noteq> local filename @ ''_V.nc''
           \<longrightarrow> files w' q = files w q"
    by (simp_all add: f)
  have init: "local filename \<noteq> [] \<and> lonv \<noteq> [] \<and> latv \<noteq> [] \<longrightarrow>
         (\<exists>g'. NEMOGrid_init rbs w' (Some (local filename)) degree_opt = Inr g')
       \<or> NEMOGrid_init rbs w' (Some (local filename)) degree_opt = Inl SplineError"
    using write_then_init [OF assms] by blast
  have rb: "\<forall>g'. local filename \<noteq> []
           \<and> NEMOGrid_init rbs w' (Some (local filename)) degree_opt = Inr g' \<longrightarrow>
           dset_u g' = Some du \<and> dset_v g' = Some dv
         \<and> lon_u g' = Some (Handle du ''nav_lon'') \<and> lat_u g' = Some (Handle du ''nav_lat'')
         \<and> lon_v g' = Some (Handle dv ''nav_lon'') \<and> lat_v g' = Some (Handle dv ''nav_lat'')
         \<and> (\<exists>U0 V0. var_getitem du ''vozocrtx'' [At 0, At 0, Every, Every] = Inr (A2 U0)
               \<and> var_getitem dv ''vomecrty'' [At 0, At 0, Every, Every] = Inr (A2 V0)
               \<and> flow_U g' = Some (map (map (\<lambda>a. if isnan a then Fin 0 else a)) U0)
               \<and> flow_V g' = Some (map (map (\<lambda>a. if isnan a then Fin 0 else a)) V0))"
    using init_fields [OF _ fu fv] by blast
  show ?thesis
    by (rule exI [of _ du], rule exI [of _ dv], rule exI [of _ vu], rule exI [of _ vv],
        intro conjI)
       (fact fu fv fo du dv vu vv dvu dvv init rb)+
qed

text \<open>
  On the example grid \<open>write\<close> returns, and \<open>__init__\<close> with degree 1 returns the grid
  described; none of its reads has a masked entry.
\<close>

theorem write_nemo_layout_witness:
  "\<exists>w' du dv vu vv g'.
      NEMOGrid_write ex_cast ex_local ex_grid_in ex_disk ''nemo'' = Inr w'
    \<and> files w' ''/work/nemo_U.nc'' = Some du \<and> files w' ''/work/nemo_V.nc'' = Some dv
    \<and> files w' ''/work/nemo.nc'' = None
    \<and> dom (ds_vars du) = {''nav_lon'', ''nav_lat'', ''depthu'', ''time_counter'', ''vozocrtx''}
    \<and> dom (ds_vars dv) = {''nav_lon'', ''nav_lat'', ''depthv'', ''time_counter'', ''vomecrty''}
    \<and> ds_vars du ''vozocrtx'' = Some vu
    \<and> var_dims vu = [''time_counter'', ''depthu'', ''y'', ''x'']
    \<and> ds_vars dv ''vomecrty'' = Some vv
    \<and> var_dims vv = [''time_counter'', ''depthv'', ''y'', ''x'']
    \<and> NEMOGrid_init ex_spline w' (Some ''/work/nemo'') (Some 1) = Inr g'
    \<and> dset_u g' = Some du \<and> dset_v g' = Some dv
    \<and> lon_u g' = Some (Handle du ''nav_lon'') \<and> lat_u g' = Some (Handle du ''nav_lat'')
    \<and> lon_v g' = Some (Handle dv ''nav_lon'') \<and> lat_v g' = Some (Handle dv ''nav_lat'')
    \<and> flow_U g' = Some [[Fin 1, Fin 3, Fin 5], [Fin 2, Fin 4, Fin 6]]
    \<and> flow_V g' = Some [[Fin 0, Fin 8, Fin 10], [Fin 7, Fin 9, Fin 11]]
    \<and> \<not> reads_masked ex_cast du dv"
proof -
  from ex_write_in obtain w' where
    w: "NEMOGrid_write ex_cast ex_local ex_grid_in ex_disk ''nemo'' = Inr w'" ..
  have p: "ex_local ''nemo'' \<noteq> []" by (simp add: ex_local_def)
  have nv: "[Fin 12, Fin 20, Fin 28] \<noteq> []" "[Fin (- 38), Fin (- 32)] \<noteq> []" by simp_all
  from write_nemo_layout [OF w ex_grid_in_coords, of ex_spline "Some 1"] obtain du dv vu vv where
    f: "files w' (ex_local ''nemo'' @ ''_U.nc'') = Some du"
       "files w' (ex_local ''nemo'' @ ''_V.nc'') = Some dv"
    and o: "\<forall>q. q \<noteq> ex_local ''nemo'' @ ''_U.nc'' \<longrightarrow> q \<noteq> ex_local ''nemo'' @ ''_V.nc''
           \<longrightarrow> files w' q = files ex_disk q"
    and d: "dom (ds_vars du) = {''nav_lon'', ''nav_lat'', ''depthu'', ''time_counter'', ''vozocrtx''}"
       "dom (ds_vars dv) = {''nav_lon'', ''nav_lat'', ''depthv'', ''time_counter'', ''vomecrty''}"
    and v: "ds_vars du ''vozocrtx'' = Some vu"
       "var_dims vu = [''time_counter'', ''depthu'', ''y'', ''x'']"
       "ds_vars dv ''vomecrty'' = Some vv"
       "var_dims vv = [''time_counter'', ''depthv'', ''y'', ''x'']"
    and rb: "\<forall>g'. ex_local ''nemo'' \<noteq> []
           \<and> NEMOGrid_init ex_spline w' (Some (ex_local ''nemo'')) (Some 1) = Inr g' \<longrightarrow>
           dset_u g' = Some du \<and> dset_v g' = Some dv
         \<and> lon_u g' = Some (Handle du ''nav_lon'') \<and> lat_u g' = Some (Handle du ''nav_lat'')
         \<and> lon_v g' = Some (Handle dv ''nav_lon'') \<and> lat_v g' = Some (Handle dv ''nav_lat'')
         \<and> (\<exists>U0 V0. var_getitem du ''vozocrtx'' [At 0, At 0, Every, Every] = Inr (A2 U0)
               \<and> var_getitem dv ''vomecrty'' [At 0, At 0, Every, Every] = Inr (A2 V0)
               \<and> flow_U g' = Some (map (map (\<lambda>a. if isnan a then Fin 0 else a)) U0)
               \<and> flow_V g' = Some (map (map (\<lambda>a. if isnan a then Fin 0 else a)) V0))"
    by (elim exE conjE) (rule that; assumption)
  from write_then_init_eq [OF w ex_grid_in_coords ex_grid_in_flow p nv, of ex_spline "Some 1"]
  obtain g' where
    g': "NEMOGrid_init ex_spline w' (Some (ex_local ''nemo'')) (Some 1) = Inr g'"
    and fl: "flow_U g' = Some [[Fin 1, Fin 3, Fin 5], [Fin 2, Fin 4, Fin 6]]"
       "flow_V g' = Some [[Fin 0, Fin 8, Fin 10], [Fin 7, Fin 9, Fin 11]]"
    by (elim exE conjE) (simp add: ex_eval)
  from rb p g' have "dset_u g' = Some du \<and> dset_v g' = Some dv
         \<and> lon_u g' = Some (Handle du ''nav_lon'') \<and> lat_u g' = Some (Handle du ''nav_lat'')
         \<and> lon_v g' = Some (Handle dv ''nav_lon'') \<and> lat_v g' = Some (Handle dv ''nav_lat'')"
    by blast
  then have h: "dset_u g' = Some du" "dset_v g' = Some dv"
    "lon_u g' = Some (Handle du ''nav_lon'')" "lat_u g' = Some (Handle du ''nav_lat'')"
    "lon_v g' = Some (Handle dv ''nav_lon'')" "lat_v g' = Some (Handle dv ''nav_lat'')"
    by simp_all
  have m: "\<not> reads_masked ex_cast du dv"
    unfolding write_reads_masked [OF w ex_grid_in_coords ex_grid_in_flow nv f]
    by (simp add: ex_mask)
  from o have n: "files w' ''/work/nemo.nc'' = None"
    by (simp add: ex_local_nemo ex_disk_def)
  note f' = f [unfolded ex_local_nemo, simplified]
  note g'' = g' [unfolded ex_local_nemo]
  show ?thesis
    by (rule exI [of _ w'], rule exI [of _ du], rule exI [of _ dv], rule exI [of _ vu],
        rule exI [of _ vv], rule exI [of _ g'], intro conjI)
       (fact w f' n d v g'' h fl m)+
qed

subsection \<open>A written field is read back transposed\<close>




subsection \<open>The valid range in the V file comes from the U grid\<close>

text \<open>
  Claim C10. In the V file, \<open>valid_min\<close> and \<open>valid_max\<close> of \<open>nav_lon\<close> are
  \<open>lon_u[0]\<close> and \<open>lon_u[-1]\<close>, and those of \<open>nav_lat\<close> are \<open>lat_u[0]\<close> and
  \<open>lat_u[-1]\<close>, while the values of \<open>nav_lon\<close> and \<open>nav_lat\<close> are those of \<open>lon_v\<close>
  (one copy per row) and \<open>lat_v\<close> (one copy per column).
\<close>

theorem write_v_valid_range_from_u:
  assumes "NEMOGrid_write cast local g w filename = Inr w'"
    and "lon_u g = Some (Array1 lonu)" and "lat_u g = Some (Array1 latu)"
    and "lon_v g = Some (Array1 lonv)" and "lat_v g = Some (Array1 latv)"
  shows "\<exists>dv vlon vlat.
      files w' (local filename @ ''_V.nc'') = Some dv
    \<and> ds_vars dv ''nav_lon'' = Some vlon \<and> ds_vars dv ''nav_lat'' = Some vlat
    \<and> lonu \<noteq> [] \<and> latu \<noteq> []
    \<and> var_attrs vlon ''valid_min'' = Some (lonu ! 0)
    \<and> var_attrs vlon ''valid_max'' = Some (last lonu)
    \<and> var_attrs vlat ''valid_min'' = Some (latu ! 0)
    \<and> var_attrs vlat ''valid_max'' = Some (last latu)
    \<and> (\<forall>j < length latv. \<forall>i < length lonv.
          var_cells vlon [j, i] = cast Float32 (lonv ! i)
        \<and> var_cells vlat [j, i] = cast Float32 (latv ! j))"
proof -
  from assms obtain du dv dps tcs Um Vm where
    hv: "write_half cast HalfV (Some (Array1 lonv)) (Some (Array1 latv)) (Some (Array1 lonu))
       (Some (Array1 latu)) (Some dps) (Some tcs) (Some Vm) = Inr dv"
    and f: "files w' = (files w)(local filename @ ''_U.nc'' \<mapsto> du, local filename @ ''_V.nc'' \<mapsto> dv)"
    by (rule write_success)
  let ?vlon = "\<lparr>var_dtype = Float32, var_dims = [''y'', ''x''],
                var_attrs = [''valid_min'' \<mapsto> lonu ! 0, ''valid_max'' \<mapsto> last lonu],
                var_cells = row_cells (cast Float32) lonv (length latv) (\<lambda>_. NC_FILL)\<rparr>"
  let ?vlat = "\<lparr>var_dtype = Float32, var_dims = [''y'', ''x''],
                var_attrs = [''valid_min'' \<mapsto> latu ! 0, ''valid_max'' \<mapsto> last latu],
                var_cells = col_cells (cast Float32) latv (length lonv) (\<lambda>_. NC_FILL)\<rparr>"
  from write_half_Inr [OF hv] have
    "lonu \<noteq> [] \<and> latu \<noteq> []
     \<and> ds_vars dv ''nav_lon'' = Some ?vlon \<and> ds_vars dv ''nav_lat'' = Some ?vlat"
    by (elim exE conjE) (intro conjI; assumption)
  then have ne: "lonu \<noteq> []" "latu \<noteq> []"
    and v: "ds_vars dv ''nav_lon'' = Some ?vlon" "ds_vars dv ''nav_lat'' = Some ?vlat"
    by simp_all
  have fv: "files w' (local filename @ ''_V.nc'') = Some dv"
    by (simp add: f)
  have "var_attrs ?vlon ''valid_min'' = Some (lonu ! 0)"
    "var_attrs ?vlon ''valid_max'' = Some (last lonu)"
    "var_attrs ?vlat ''valid_min'' = Some (latu ! 0)"
    "var_attrs ?vlat ''valid_max'' = Some (last latu)"
    "\<forall>j < length latv. \<forall>i < length lonv.
          var_cells ?vlon [j, i] = cast Float32 (lonv ! i)
        \<and> var_cells ?vlat [j, i] = cast Float32 (latv ! j)"
    by (simp_all add: row_cells_def col_cells_def)
  with fv v ne show ?thesis by blast
qed

theorem write_v_valid_range_from_u_witness:
  "\<exists>w' dv vlon vlat.
      NEMOGrid_write ex_cast ex_local ex_grid ex_disk ''nemo'' = Inr w'
    \<and> files w' ''/work/nemo_V.nc'' = Some dv
    \<and> ds_vars dv ''nav_lon'' = Some vlon \<and> ds_vars dv ''nav_lat'' = Some vlat
    \<and> var_attrs vlon ''valid_min'' = Some (Fin 10) \<and> var_attrs vlon ''valid_max'' = Some (Fin 30)
    \<and> var_attrs vlat ''valid_min'' = Some (Fin (- 40)) \<and> var_attrs vlat ''valid_max'' = Some (Fin (- 30))
    \<and> var_cells vlon [1, 0] = Fin 15 \<and> var_cells vlon [1, 2] = Fin 35
    \<and> var_cells vlat [0, 2] = Fin (- 45) \<and> var_cells vlat [1, 2] = Fin (- 35)"
proof -
  from ex_write obtain w' where
    w: "NEMOGrid_write ex_cast ex_local ex_grid ex_disk ''nemo'' = Inr w'" ..
  from write_v_valid_range_from_u [OF w ex_grid_coords] obtain dv vlon vlat where
    f: "files w' (ex_local ''nemo'' @ ''_V.nc'') = Some dv"
    and v: "ds_vars dv ''nav_lon'' = Some vlon" "ds_vars dv ''nav_lat'' = Some vlat"
    and a: "var_attrs vlon ''valid_min'' = Some ([Fin 10, Fin 20, Fin 30] ! 0)"
      "var_attrs vlon ''valid_max'' = Some (last [Fin 10, Fin 20, Fin 30])"
      "var_attrs vlat ''valid_min'' = Some ([Fin (- 40), Fin (- 30)] ! 0)"
      "var_attrs vlat ''valid_max'' = Some (last [Fin (- 40), Fin (- 30)])"
    and c: "\<forall>j < length [Fin (- 45), Fin (- 35)]. \<forall>i < length [Fin 15, Fin 25, Fin 35].
          var_cells vlon [j, i] = ex_cast Float32 ([Fin 15, Fin 25, Fin 35] ! i)
        \<and> var_cells vlat [j, i] = ex_cast Float32 ([Fin (- 45), Fin (- 35)] ! j)"
    by (elim exE conjE) (rule that; assumption)
  from c have "var_cells vlon [1, 0] = Fin 15" "var_cells vlon [1, 2] = Fin 35"
    "var_cells vlat [0, 2] = Fin (- 45)" "var_cells vlat [1, 2] = Fin (- 35)"
    by (simp_all add: ex_cast_def)
  with w f v a show ?thesis by (simp add: ex_local_nemo)
qed

end
